theory Spec2Isabelle
  imports Main "HOL-Library.Multiset" "HOL-Library.AList"
begin

section \<open>Go values used by the converter\<close>

text \<open>
  A Go \<open>error\<close> is an interface value that may be nil: \<open>error option\<close>, with \<open>None\<close>
  for nil. An \<open>error\<close> is either created by a collaborator or is another error annotated
  with a message by \<open>errors.Wrap\<close> of github.com/pkg/errors.
\<close>

datatype error = Failure string | WithMessage error string

text \<open>
  \<open>errors.Wrap(err, message)\<close>: "If err is nil, Wrap returns nil."
\<close>

fun errors_Wrap :: "error option \<Rightarrow> string \<Rightarrow> error option" where
  "errors_Wrap None message = None"
| "errors_Wrap (Some err) message = Some (WithMessage err message)"

text \<open>Instants (\<open>time.Time\<close>, \<open>jira.Date\<close>, \<open>jira.Time\<close>) are integers; the zero value is 0.\<close>

type_synonym time = int

text \<open>A value of type \<open>interface{}\<close> decoded from JSON, as held by \<open>Fields.Unknowns\<close>.\<close>

datatype iface = JNull | JBool bool | JNumber int | JString string | JOther

record jira_Attachment =
  att_ID :: string
  att_Filename :: string

record jira_Comment =
  com_ID :: string
  com_Body :: string

text \<open>\<open>jira.Issue\<close> with the members of \<open>Fields\<close> that the converter reads.\<close>

record jira_Issue =
  Key :: string
  Summary :: string
  Created :: time
  Duedate :: time
  Resolution :: "string option"
  Unknowns :: "string \<rightharpoonup> iface"
  Attachments :: "jira_Attachment list"
  Comments :: "jira_Comment list"

text \<open>The converter's own \<open>Attachment\<close> (markdown fragment, name, creation time).\<close>

record Attachment =
  Markdown :: string
  Name :: string
  CreatedAt :: time

type_synonym UserMap = "(string \<times> string) list"

text \<open>The members of the configuration that the converter reads.\<close>

record Config =
  GitLab_Host :: string
  Project_GitLab_Epic :: string
  Project_GitLab_Issue :: string
  Project_Jira_CustomField_EpicStartDate :: string

record CreateEpicOptions =
  Title :: "string option"
  Color :: "string option"
  opt_CreatedAt :: "time option"
  Labels :: "string list"
  DueDateFixed :: "time option"
  Description :: "string option"
  StartDateIsFixed :: "bool option"
  StartDateFixed :: "time option"
  DueDateIsFixed :: "bool option"

record Epic =
  ID :: int
  IID :: int

section \<open>The regular expression of the relocation task\<close>

text \<open>
  The pattern \<^verbatim>\<open>!\[(.+)\]\((.+)\)\<close> is a sequence of literal characters and of capture
  groups \<^verbatim>\<open>(.+)\<close>. Go's \<open>regexp\<close> returns the leftmost match and, among the matches
  that start there, the one a backtracking search finds first; \<^verbatim>\<open>.\<close> matches any
  character except the newline, and \<^verbatim>\<open>+\<close> is greedy.
\<close>

datatype re_tok = Lit char | CapDotPlus

definition newline :: char where
  "newline = CHR 0x0A"

definition embed_pattern :: "re_tok list" where
  "embed_pattern =
     [Lit CHR ''!'', Lit CHR ''['', CapDotPlus, Lit CHR '']'', Lit CHR ''('', CapDotPlus,
      Lit CHR '')'']"

text \<open>
  \<open>dot_star k acc s\<close>: the group has consumed \<open>acc\<close>; it first tries to consume one more
  character and only then hands the capture and the rest to the continuation \<open>k\<close>.
\<close>

fun dot_star :: "(string \<Rightarrow> string \<Rightarrow> 'a option) \<Rightarrow> string \<Rightarrow> string \<Rightarrow> 'a option" where
  "dot_star k acc [] = k acc []"
| "dot_star k acc (c # cs) =
     (if c = newline then k acc (c # cs)
      else (case dot_star k (acc @ [c]) cs of
              Some r \<Rightarrow> Some r
            | None \<Rightarrow> k acc (c # cs)))"

fun dot_plus :: "(string \<Rightarrow> string \<Rightarrow> 'a option) \<Rightarrow> string \<Rightarrow> 'a option" where
  "dot_plus k [] = None"
| "dot_plus k (c # cs) = (if c = newline then None else dot_star k [c] cs)"

text \<open>Match the tokens at the start of the text: the captures and the unread rest.\<close>

fun match_here :: "re_tok list \<Rightarrow> string \<Rightarrow> (string list \<times> string) option" where
  "match_here [] s = Some ([], s)"
| "match_here (Lit c # ts) [] = None"
| "match_here (Lit c # ts) (x # xs) = (if x = c then match_here ts xs else None)"
| "match_here (CapDotPlus # ts) s =
     dot_plus (\<lambda>cap rest. case match_here ts rest of
                              None \<Rightarrow> None
                            | Some (caps, r) \<Rightarrow> Some (cap # caps, r)) s"

text \<open>
  \<open>FindStringSubmatch\<close>: the leftmost match as the matched text followed by the captures,
  and nil (the empty slice) when nothing matches.
\<close>

fun FindStringSubmatch :: "re_tok list \<Rightarrow> string \<Rightarrow> string list" where
  "FindStringSubmatch p [] =
     (case match_here p [] of Some (caps, r) \<Rightarrow> [] # caps | None \<Rightarrow> [])"
| "FindStringSubmatch p (c # cs) =
     (case match_here p (c # cs) of
        Some (caps, r) \<Rightarrow> take (length (c # cs) - length r) (c # cs) # caps
      | None \<Rightarrow> FindStringSubmatch p cs)"

section \<open>Collaborators and remote calls\<close>

text \<open>
  The functions the converter calls and that live outside the file are parameters. A call
  that returns \<open>(value, err)\<close> is a sum, with \<open>Inl\<close> for a non-nil error; a call that
  returns only an error is an \<open>error option\<close>. What a call answers depends on its
  arguments only. \<open>time.Parse\<close> of the standard library is a parameter as well.
\<close>

record env =
  GetConfig :: "error + Config"
  convertJiraToGitLabLabels :: "string \<Rightarrow> jira_Issue \<Rightarrow> bool \<Rightarrow> error + string list"
  RandomColor :: string
  convertJiraAttachmentToMarkdown :: "string \<Rightarrow> jira_Attachment \<Rightarrow> error + Attachment"
  formatDescription ::
    "jira_Issue \<Rightarrow> UserMap \<Rightarrow> (string \<times> Attachment) list \<Rightarrow> bool \<Rightarrow> error + string"
  time_Parse :: "string \<Rightarrow> string \<Rightarrow> error + time"
  CreateEpic :: "string \<Rightarrow> CreateEpicOptions \<Rightarrow> error + Epic"
  formatNote ::
    "string \<Rightarrow> jira_Comment \<Rightarrow> UserMap \<Rightarrow> (string \<times> Attachment) list \<Rightarrow> bool \<Rightarrow> error + string"
  CreateEpicNote :: "string \<Rightarrow> int \<Rightarrow> string \<Rightarrow> error option"
  UpdateEpic :: "string \<Rightarrow> int \<Rightarrow> string \<Rightarrow> error option"

text \<open>
  The calls issued during one conversion, in the order of the model. A note call carries
  the loop that issued it: the comment loop or the loop over the remaining attachments.
\<close>

datatype call_site = CommentLoop | RemainLoop

datatype event =
    UploadCall string jira_Attachment
  | CreateEpicCall string CreateEpicOptions
  | CreateEpicNoteCall call_site string int string
  | UpdateEpicCall string int string

text \<open>
  What the goroutines share: the map \<open>attachments\<close> (identifier to relocated attachment,
  kept as an association list with one entry per key) and the calls issued so far.
\<close>

record conv_state =
  attachments :: "(string \<times> Attachment) list"
  trace :: "event list"

definition emit :: "event \<Rightarrow> conv_state \<Rightarrow> conv_state" where
  "emit e st = st\<lparr>trace := trace st @ [e]\<rparr>"

section \<open>The task group\<close>

text \<open>
  \<open>errgroup.Group\<close> without a context: \<open>Go\<close> starts every task, none is cancelled, and
  \<open>Wait\<close> returns the first non-nil error once all have finished. The tasks run here one
  after the other in the order of submission, each as one step; the limit of five tasks in
  flight delays a task and changes no result.
\<close>

type_synonym task = "conv_state \<Rightarrow> error option \<times> conv_state"

fun group_run :: "task list \<Rightarrow> conv_state \<Rightarrow> error option \<times> conv_state" where
  "group_run [] st = (None, st)"
| "group_run (t # ts) st =
     (case t st of
        (err, st') \<Rightarrow>
          (case group_run ts st' of
             (err', st'') \<Rightarrow> ((case err of Some e \<Rightarrow> Some e | None \<Rightarrow> err'), st'')))"

section \<open>The attachment task\<close>

text \<open>
  The closure submitted for one Jira attachment. After the check of the collaborator's
  error, the closure's variable \<open>err\<close> is nil, and it is this variable that the
  parse failure wraps.
\<close>

definition relocate_task :: "env \<Rightarrow> Config \<Rightarrow> string \<Rightarrow> jira_Attachment \<Rightarrow> task" where
  "relocate_task e cfg pid jiraAttachment st0 =
     (let st = emit (UploadCall pid jiraAttachment) st0 in
      case convertJiraAttachmentToMarkdown e pid jiraAttachment of
        Inl err \<Rightarrow>
          (errors_Wrap (Some err) ''Error converting Jira attachment to GitLab attachment'', st)
      | Inr attachment \<Rightarrow>
          (let err = None;
               matches = FindStringSubmatch embed_pattern (Markdown attachment)
           in if length matches \<noteq> 3 then (errors_Wrap err ''Error parsing markdown'', st)
              else
                (let alt = matches ! 1;
                     url = matches ! 2;
                     absUrl = GitLab_Host cfg @ ''/'' @ Project_GitLab_Issue cfg @ ''/'' @ url
                 in (None,
                     st\<lparr>attachments :=
                          AList.update (att_ID jiraAttachment)
                            \<lparr>Markdown = ''!['' @ alt @ '']('' @ absUrl @ '')'',
                             Name = Name attachment,
                             CreatedAt = CreatedAt attachment\<rparr>
                            (attachments st)\<rparr>))))"

text \<open>The attachments for which the task stores an entry: uploaded, and matched.\<close>

definition relocated :: "env \<Rightarrow> Config \<Rightarrow> jira_Attachment \<Rightarrow> bool" where
  "relocated e cfg a =
     (case convertJiraAttachmentToMarkdown e (Project_GitLab_Issue cfg) a of
        Inl err \<Rightarrow> False
      | Inr att \<Rightarrow> length (FindStringSubmatch embed_pattern (Markdown att)) = 3)"

section \<open>The conversion\<close>

text \<open>The first fan-out: one task per Jira attachment, then \<open>g.Wait()\<close>.\<close>

definition relocate_all :: "env \<Rightarrow> Config \<Rightarrow> jira_Issue \<Rightarrow> error option \<times> conv_state" where
  "relocate_all e cfg jiraIssue =
     group_run (map (relocate_task e cfg (Project_GitLab_Issue cfg)) (Attachments jiraIssue))
       \<lparr>attachments = [], trace = []\<rparr>"

text \<open>
  The start date: read only when the custom field's name is configured. The type assertion
  \<open>.(string)\<close> fails on a missing key (a nil interface) and on any value that is not a
  string; a string that does not parse is an error.
\<close>

definition start_date ::
  "env \<Rightarrow> Config \<Rightarrow> jira_Issue \<Rightarrow> CreateEpicOptions \<Rightarrow> error + CreateEpicOptions" where
  "start_date e cfg jiraIssue opts =
     (if Project_Jira_CustomField_EpicStartDate cfg \<noteq> [] then
        (case Unknowns jiraIssue (Project_Jira_CustomField_EpicStartDate cfg) of
           Some (JString startDateStr) \<Rightarrow>
             (case time_Parse e ''2006-01-02'' startDateStr of
                Inl err \<Rightarrow> Inl err
              | Inr startDate \<Rightarrow>
                  Inr (opts\<lparr>StartDateIsFixed := Some True, StartDateFixed := Some startDate\<rparr>))
         | _ \<Rightarrow> Inr opts)
      else Inr opts)"

definition due_date :: "jira_Issue \<Rightarrow> CreateEpicOptions \<Rightarrow> CreateEpicOptions" where
  "due_date jiraIssue opts =
     (if Duedate jiraIssue \<noteq> 0
      then opts\<lparr>DueDateIsFixed := Some True, DueDateFixed := Some (Duedate jiraIssue)\<rparr>
      else opts)"

text \<open>The closure submitted for one Jira comment.\<close>

definition comment_task ::
  "env \<Rightarrow> string \<Rightarrow> Epic \<Rightarrow> jira_Issue \<Rightarrow> UserMap \<Rightarrow> jira_Comment \<Rightarrow> task" where
  "comment_task e gid gitlabEpic jiraIssue userMap jiraComment st =
     (case formatNote e (Key jiraIssue) jiraComment userMap (attachments st) True of
        Inl err \<Rightarrow> (errors_Wrap (Some err) ''Error formatting comment'', st)
      | Inr body \<Rightarrow>
          (let st' = emit (CreateEpicNoteCall CommentLoop gid (ID gitlabEpic) body) st in
           case CreateEpicNote e gid (ID gitlabEpic) body of
             Some err \<Rightarrow> (errors_Wrap (Some err) ''Error creating note'', st')
           | None \<Rightarrow> (None, st')))"

text \<open>
  The loop over the relocated attachments skips an identifier when
  \<open>used, ok := usedAttachment[id]; ok || used\<close> holds. The order of a Go map's range
  is not fixed; the model walks the association list. The closure of this loop assigns the
  function's own \<open>err\<close> and tests it at once; with the tasks run one after the other
  that is the value it has just assigned.
\<close>

definition skipped :: "(string \<rightharpoonup> bool) \<Rightarrow> string \<Rightarrow> bool" where
  "skipped usedAttachment ident =
     (case usedAttachment ident of Some used \<Rightarrow> True \<or> used | None \<Rightarrow> False \<or> False)"

definition remain_task :: "env \<Rightarrow> string \<Rightarrow> Epic \<Rightarrow> Attachment \<Rightarrow> task" where
  "remain_task e gid gitlabEpic markdown st =
     (let st' = emit (CreateEpicNoteCall RemainLoop gid (ID gitlabEpic) (Markdown markdown)) st in
      case CreateEpicNote e gid (ID gitlabEpic) (Markdown markdown) of
        Some err \<Rightarrow> (errors_Wrap (Some err) ''Error creating note'', st')
      | None \<Rightarrow> (None, st'))"

definition remain_tasks ::
  "env \<Rightarrow> string \<Rightarrow> Epic \<Rightarrow> (string \<rightharpoonup> bool) \<Rightarrow> (string \<times> Attachment) list \<Rightarrow> task list" where
  "remain_tasks e gid gitlabEpic usedAttachment atts =
     map (\<lambda>(ident, markdown). remain_task e gid gitlabEpic markdown)
       (filter (\<lambda>(ident, markdown). \<not> skipped usedAttachment ident) atts)"

text \<open>
  Everything after the epic exists: the comments, the remaining attachments, the closing
  update (whose result is dropped) and the return of the epic. The message of the comment
  phase is kept without its formatted suffix.
\<close>

definition after_create ::
  "env \<Rightarrow> string \<Rightarrow> Epic \<Rightarrow> jira_Issue \<Rightarrow> UserMap \<Rightarrow> (string \<rightharpoonup> bool) \<Rightarrow> conv_state
     \<Rightarrow> (Epic option \<times> error option) \<times> event list" where
  "after_create e gid gitlabEpic jiraIssue userMap usedAttachment st2 =
     (case group_run (map (comment_task e gid gitlabEpic jiraIssue userMap) (Comments jiraIssue)) st2 of
        (Some err, st3) \<Rightarrow>
          ((None, errors_Wrap (Some err) ''Error creating GitLab comment''), trace st3)
      | (None, st3) \<Rightarrow>
          (case group_run (remain_tasks e gid gitlabEpic usedAttachment (attachments st3)) st3 of
             (Some err, st4) \<Rightarrow>
               ((None, errors_Wrap (Some err) ''Error creating GitLab issue''), trace st4)
           | (None, st4) \<Rightarrow>
               (if Resolution jiraIssue \<noteq> None then
                  (let st5 = emit (UpdateEpicCall gid (IID gitlabEpic) ''close'') st4;
                       dropped = UpdateEpic e gid (IID gitlabEpic) ''close''
                   in ((Some gitlabEpic, None), trace st5))
                else ((Some gitlabEpic, None), trace st4))))"

text \<open>
  \<open>ConvertJiraIssueToGitLabEpic\<close>: the returned pair \<open>(*gitlab.Epic, error)\<close> and the
  calls issued. \<open>usedAttachment\<close> is made empty and no statement of the function stores
  into it.
\<close>

definition ConvertJiraIssueToGitLabEpic ::
  "env \<Rightarrow> jira_Issue \<Rightarrow> UserMap \<Rightarrow> (Epic option \<times> error option) \<times> event list" where
  "ConvertJiraIssueToGitLabEpic e jiraIssue userMap =
     (case GetConfig e of
        Inl err \<Rightarrow> ((None, errors_Wrap (Some err) ''Error getting config''), [])
      | Inr cfg \<Rightarrow>
          (let gid = Project_GitLab_Epic cfg in
           case convertJiraToGitLabLabels e gid jiraIssue True of
             Inl err \<Rightarrow>
               ((None, errors_Wrap (Some err) ''Error converting Jira labels to GitLab labels''), [])
           | Inr labels \<Rightarrow>
               (let gitlabCreateEpicOptions =
                      \<lparr>Title = Some (Summary jiraIssue),
                       Color = Some (RandomColor e),
                       opt_CreatedAt = Some (Created jiraIssue),
                       Labels = labels,
                       DueDateFixed = Some (Duedate jiraIssue),
                       Description = None,
                       StartDateIsFixed = None,
                       StartDateFixed = None,
                       DueDateIsFixed = None\<rparr>;
                    usedAttachment = Map.empty
                in case relocate_all e cfg jiraIssue of
                     (Some err, st1) \<Rightarrow>
                       ((None, errors_Wrap (Some err)
                                 ''Error converting Jira attachment to GitLab attachment''),
                        trace st1)
                   | (None, st1) \<Rightarrow>
                       (case formatDescription e jiraIssue userMap (attachments st1) True of
                          Inl err \<Rightarrow>
                            ((None, errors_Wrap (Some err) ''Error formatting description''),
                             trace st1)
                        | Inr description \<Rightarrow>
                            (case start_date e cfg jiraIssue
                                    (gitlabCreateEpicOptions\<lparr>Description := Some description\<rparr>) of
                               Inl err \<Rightarrow>
                                 ((None, errors_Wrap (Some err) ''Error parsing time''), trace st1)
                             | Inr opts \<Rightarrow>
                                 (let opts' = due_date jiraIssue opts;
                                      st2 = emit (CreateEpicCall (Project_GitLab_Epic cfg) opts') st1
                                  in case CreateEpic e (Project_GitLab_Epic cfg) opts' of
                                       Inl err \<Rightarrow>
                                         ((None, errors_Wrap (Some err) ''Error creating GitLab epic''),
                                          trace st2)
                                     | Inr gitlabEpic \<Rightarrow>
                                         after_create e gid gitlabEpic jiraIssue userMap
                                           usedAttachment st2))))))"

section \<open>Reading the calls of a run\<close>

text \<open>The calls a successful run is made of, after the uploads and the creation.\<close>

fun is_upload :: "event \<Rightarrow> bool" where
  "is_upload (UploadCall pid a) = True"
| "is_upload ev = False"

definition comment_notes :: "string \<Rightarrow> Epic \<Rightarrow> event list \<Rightarrow> bool" where
  "comment_notes gid ep evs =
     list_all (\<lambda>ev. \<exists>b. ev = CreateEpicNoteCall CommentLoop gid (ID ep) b) evs"

definition remain_notes :: "string \<Rightarrow> Epic \<Rightarrow> (string \<times> Attachment) list \<Rightarrow> event list" where
  "remain_notes gid ep atts =
     map (\<lambda>(ident, m). CreateEpicNoteCall RemainLoop gid (ID ep) (Markdown m)) atts"

definition closing :: "string \<Rightarrow> Epic \<Rightarrow> jira_Issue \<Rightarrow> event list" where
  "closing gid ep jiraIssue =
     (if Resolution jiraIssue \<noteq> None then [UpdateEpicCall gid (IID ep) ''close''] else [])"

fun is_create :: "event \<Rightarrow> bool" where
  "is_create (CreateEpicCall gid opts) = True"
| "is_create ev = False"

fun is_note :: "event \<Rightarrow> bool" where
  "is_note (CreateEpicNoteCall site gid epicID body) = True"
| "is_note ev = False"

fun is_update :: "event \<Rightarrow> bool" where
  "is_update (UpdateEpicCall gid iid stateEvent) = True"
| "is_update ev = False"

text \<open>The bodies of the notes issued by the loop over the remaining attachments.\<close>

fun remain_bodies :: "event list \<Rightarrow> string list" where
  "remain_bodies [] = []"
| "remain_bodies (CreateEpicNoteCall RemainLoop gid epicID body # evs) = body # remain_bodies evs"
| "remain_bodies (ev # evs) = remain_bodies evs"

text \<open>
  Modelled from the spec: the state of the created entity as the target system shows it,
  which the converter never reads back. An entity is opened by a creation call that
  succeeds and closed by a state update with the event \<open>close\<close> that succeeds; a call
  that fails changes nothing.
\<close>

fun observed_state :: "env \<Rightarrow> event list \<Rightarrow> string option \<Rightarrow> string option" where
  "observed_state e [] s = s"
| "observed_state e (CreateEpicCall gid opts # evs) s =
     observed_state e evs (case CreateEpic e gid opts of Inr epic \<Rightarrow> Some ''opened'' | Inl err \<Rightarrow> s)"
| "observed_state e (UpdateEpicCall gid iid stateEvent # evs) s =
     observed_state e evs
       (if s \<noteq> None \<and> stateEvent = ''close'' \<and> UpdateEpic e gid iid stateEvent = None
        then Some ''closed'' else s)"
| "observed_state e (ev # evs) s = observed_state e evs s"

section \<open>The cached Jira client\<close>

text \<open>
  \<open>GetJiraClient\<close> reads and writes the package variable \<open>jiraClient\<close>, passed in and
  returned here. A \<open>*jira.Client\<close> is an address. \<open>log.Fatalf\<close> ends the process: \<open>Inl\<close>
  with the message. \<open>jira.NewClient\<close> and \<open>client.User.GetSelf\<close> are parameters.
\<close>

type_synonym jira_Client = nat

record Jira =
  Host :: string
  Token :: string

record jira_env =
  jira_NewClient :: "string \<Rightarrow> string \<Rightarrow> error + jira_Client"
  User_GetSelf :: "jira_Client \<Rightarrow> error + string"

definition GetJiraClient ::
  "jira_env \<Rightarrow> Jira \<Rightarrow> jira_Client option \<Rightarrow> string + (jira_Client \<times> jira_Client option)" where
  "GetJiraClient je jiraConfig jiraClient =
     (case jiraClient of
        Some cached \<Rightarrow> Inr (cached, jiraClient)
      | None \<Rightarrow>
          (case jira_NewClient je (Host jiraConfig) (Token jiraConfig) of
             Inl err \<Rightarrow> Inl ''Error creating Jira client''
           | Inr client \<Rightarrow>
               (case User_GetSelf je client of
                  Inl err \<Rightarrow> Inl ''Error getting current user for Jira''
                | Inr currnetUser \<Rightarrow> Inr (client, Some client))))"

section \<open>Concrete runs\<close>

definition cfg_demo :: Config where
  "cfg_demo =
     \<lparr>GitLab_Host = ''https://gitlab.example.com'',
      Project_GitLab_Epic = ''group'',
      Project_GitLab_Issue = ''group/issues'',
      Project_Jira_CustomField_EpicStartDate = ''customfield_10015''\<rparr>"

text \<open>
  A target system that accepts every call. The upload of an image answers with an embed
  fragment, the upload of any other file with a plain link, and the upload of
  \<open>gone.png\<close> fails. The description formatter embeds attachment \<open>a1\<close> inline when it
  has been relocated.
\<close>

definition upload_demo :: "string \<Rightarrow> jira_Attachment \<Rightarrow> error + Attachment" where
  "upload_demo pid a =
     (if att_Filename a = ''gone.png'' then Inl (Failure ''404 Not Found'')
      else if att_Filename a = ''notes.pdf''
      then Inr \<lparr>Markdown = ''[notes.pdf](/uploads/notes.pdf)'', Name = ''notes.pdf'', CreatedAt = 7\<rparr>
      else Inr \<lparr>Markdown = ''![screenshot](./img/1.png)'', Name = att_Filename a, CreatedAt = 7\<rparr>)"

definition describe_demo ::
  "jira_Issue \<Rightarrow> UserMap \<Rightarrow> (string \<times> Attachment) list \<Rightarrow> bool \<Rightarrow> error + string" where
  "describe_demo jiraIssue userMap atts isEpic =
     Inr (case map_of atts ''a1'' of Some m \<Rightarrow> ''See '' @ Markdown m | None \<Rightarrow> ''See !a1!'')"

definition env_demo :: env where
  "env_demo =
     \<lparr>GetConfig = Inr cfg_demo,
      convertJiraToGitLabLabels = (\<lambda>gid jiraIssue isEpic. Inr []),
      RandomColor = ''#6699cc'',
      convertJiraAttachmentToMarkdown = upload_demo,
      formatDescription = describe_demo,
      time_Parse = (\<lambda>layout v. if v = ''2024-01-15'' then Inr 19737 else Inl (Failure ''parsing time'')),
      CreateEpic = (\<lambda>gid opts. Inr \<lparr>ID = 101, IID = 1\<rparr>),
      formatNote = (\<lambda>k jiraComment userMap atts isEpic. Inr (com_Body jiraComment)),
      CreateEpicNote = (\<lambda>gid epicID body. None),
      UpdateEpic = (\<lambda>gid iid stateEvent. None)\<rparr>"

definition issue_demo :: jira_Issue where
  "issue_demo =
     \<lparr>Key = ''PROJ-1'', Summary = ''Fix bug'', Created = 3, Duedate = 0,
      Resolution = Some ''Done'', Unknowns = Map.empty,
      Attachments = [\<lparr>att_ID = ''a1'', att_Filename = ''1.png''\<rparr>],
      Comments = []\<rparr>"

definition opts_demo :: CreateEpicOptions where
  "opts_demo =
     \<lparr>Title = Some ''Fix bug'', Color = Some ''#6699cc'', opt_CreatedAt = Some 3, Labels = [],
      DueDateFixed = Some 0, Description = None, StartDateIsFixed = None, StartDateFixed = None,
      DueDateIsFixed = None\<rparr>"

text \<open>
  The same issue with a file that is not an image, with an attachment whose upload fails,
  and a target system that refuses to close the epic.
\<close>

definition issue_pdf :: jira_Issue where
  "issue_pdf = issue_demo\<lparr>Attachments := [\<lparr>att_ID = ''a2'', att_Filename = ''notes.pdf''\<rparr>]\<rparr>"

definition issue_gone :: jira_Issue where
  "issue_gone =
     issue_demo\<lparr>Attachments := [\<lparr>att_ID = ''a1'', att_Filename = ''1.png''\<rparr>,
                                 \<lparr>att_ID = ''a3'', att_Filename = ''gone.png''\<rparr>]\<rparr>"

definition env_noclose :: env where
  "env_noclose = env_demo\<lparr>UpdateEpic := (\<lambda>gid iid stateEvent. Some (Failure ''403 Forbidden''))\<rparr>"

definition jira_env_demo :: jira_env where
  "jira_env_demo =
     \<lparr>jira_NewClient = (\<lambda>host token. if host = [] then Inl (Failure ''no host'') else Inr (length host)),
      User_GetSelf = (\<lambda>client. Inr ''user@example.com'')\<rparr>"

text \<open>
  The issue without attachments, and with a start-date field that holds a string in another
  date format or a number.
\<close>

definition issue_bare :: jira_Issue where
  "issue_bare = issue_demo\<lparr>Attachments := []\<rparr>"

definition issue_baddate :: jira_Issue where
  "issue_baddate = issue_demo\<lparr>Unknowns := [''customfield_10015'' \<mapsto> JString ''15/01/2024'']\<rparr>"

definition issue_numdate :: jira_Issue where
  "issue_numdate = issue_demo\<lparr>Unknowns := [''customfield_10015'' \<mapsto> JNumber 20240115]\<rparr>"

section \<open>The task group and the three phases\<close>

lemma group_run_Cons_snd:
  "snd (group_run (t # ts) st) = snd (group_run ts (snd (t st)))"
  by (simp split: prod.splits)

lemma group_run_Cons_fst:
  "fst (group_run (t # ts) st) =
     (case fst (t st) of Some err \<Rightarrow> Some err | None \<Rightarrow> fst (group_run ts (snd (t st))))"
  by (cases "t st"; cases "group_run ts (snd (t st))") (simp split: option.splits)

lemma relocate_task_trace:
  "trace (snd (relocate_task e cfg pid a st)) = trace st @ [UploadCall pid a]"
  by (simp add: relocate_task_def emit_def Let_def split: sum.splits)

lemma relocate_task_err:
  "fst (relocate_task e cfg pid a st) =
     (case convertJiraAttachmentToMarkdown e pid a of
        Inl err \<Rightarrow> Some (WithMessage err ''Error converting Jira attachment to GitLab attachment'')
      | Inr attachment \<Rightarrow> None)"
  by (simp add: relocate_task_def Let_def split: sum.splits)

lemma group_run_relocate_trace:
  "trace (snd (group_run (map (relocate_task e cfg pid) as) st)) = trace st @ map (UploadCall pid) as"
proof (induction as arbitrary: st)
  case Nil
  then show ?case by simp
next
  case (Cons a as)
  show ?case
    unfolding list.map group_run_Cons_snd Cons.IH relocate_task_trace by simp
qed

lemma group_run_relocate_err:
  "fst (group_run (map (relocate_task e cfg pid) as) st) = None \<longleftrightarrow>
     (\<forall>a\<in>set as. \<exists>att. convertJiraAttachmentToMarkdown e pid a = Inr att)"
proof (induction as arbitrary: st)
  case Nil
  then show ?case by simp
next
  case (Cons a as)
  show ?case
    unfolding list.map group_run_Cons_fst relocate_task_err
    by (cases "convertJiraAttachmentToMarkdown e pid a") (simp_all add: Cons.IH)
qed

lemma relocate_task_attachments:
  "\<exists>v. attachments (snd (relocate_task e cfg (Project_GitLab_Issue cfg) a st)) =
     (if relocated e cfg a then AList.update (att_ID a) v (attachments st) else attachments st)"
  by (cases "convertJiraAttachmentToMarkdown e (Project_GitLab_Issue cfg) a")
     (auto simp add: relocate_task_def relocated_def emit_def Let_def)

lemma group_run_relocate_keys:
  "set (map fst (attachments (snd (group_run (map (relocate_task e cfg (Project_GitLab_Issue cfg)) as) st))))
     = set (map fst (attachments st)) \<union> set (map att_ID (filter (relocated e cfg) as))
   \<and> (distinct (map fst (attachments st)) \<longrightarrow>
        distinct (map fst (attachments (snd (group_run (map (relocate_task e cfg (Project_GitLab_Issue cfg)) as) st)))))"
proof (induction as arbitrary: st)
  case Nil
  then show ?case by simp
next
  case (Cons a as)
  let ?st = "snd (relocate_task e cfg (Project_GitLab_Issue cfg) a st)"
  obtain v where v: "attachments ?st =
     (if relocated e cfg a then AList.update (att_ID a) v (attachments st) else attachments st)"
    using relocate_task_attachments by blast
  have k: "set (map fst (attachments ?st)) =
      set (map fst (attachments st)) \<union> (if relocated e cfg a then {att_ID a} else {})"
    unfolding v by (simp add: dom_update)
  have dd: "distinct (map fst (attachments st)) \<longrightarrow> distinct (map fst (attachments ?st))"
    unfolding v by (simp add: distinct_update)
  from Cons.IH [of ?st] k dd show ?case
    unfolding list.map group_run_Cons_snd by auto
qed

lemma relocate_task_other_key:
  "att_ID b \<noteq> k \<Longrightarrow>
     map_of (attachments (snd (relocate_task e cfg pid b st))) k = map_of (attachments st) k"
  by (cases "convertJiraAttachmentToMarkdown e pid b")
     (simp_all add: relocate_task_def emit_def Let_def update_conv')

lemma group_run_relocate_other_keys:
  "k \<notin> set (map att_ID as) \<Longrightarrow>
     map_of (attachments (snd (group_run (map (relocate_task e cfg pid) as) st))) k
       = map_of (attachments st) k"
proof (induction as arbitrary: st)
  case Nil
  then show ?case by simp
next
  case (Cons b bs)
  then have "att_ID b \<noteq> k" "k \<notin> set (map att_ID bs)" by auto
  from Cons.IH [OF this(2)] relocate_task_other_key [OF this(1)] show ?case
    unfolding list.map group_run_Cons_snd by simp
qed

lemma comment_task_attachments:
  "attachments (snd (comment_task e gid ep i um c st)) = attachments st"
  by (simp add: comment_task_def emit_def Let_def split: sum.splits option.splits)

lemma comment_task_trace:
  "\<exists>evs. trace (snd (comment_task e gid ep i um c st)) = trace st @ evs
      \<and> list_all (\<lambda>ev. \<exists>b. ev = CreateEpicNoteCall CommentLoop gid (ID ep) b) evs"
  by (simp add: comment_task_def emit_def Let_def split: sum.splits option.splits)

lemma group_run_comment_attachments:
  "attachments (snd (group_run (map (comment_task e gid ep i um) cs) st)) = attachments st"
proof (induction cs arbitrary: st)
  case Nil
  then show ?case by simp
next
  case (Cons c cs)
  show ?case
    unfolding list.map group_run_Cons_snd Cons.IH comment_task_attachments ..
qed

lemma group_run_comment_trace:
  "\<exists>evs. trace (snd (group_run (map (comment_task e gid ep i um) cs) st)) = trace st @ evs
      \<and> list_all (\<lambda>ev. \<exists>b. ev = CreateEpicNoteCall CommentLoop gid (ID ep) b) evs"
proof (induction cs arbitrary: st)
  case Nil
  then show ?case by simp
next
  case (Cons c cs)
  obtain evs1 where 1: "trace (snd (comment_task e gid ep i um c st)) = trace st @ evs1"
    "list_all (\<lambda>ev. \<exists>b. ev = CreateEpicNoteCall CommentLoop gid (ID ep) b) evs1"
    using comment_task_trace by blast
  obtain evs2 where 2: "trace (snd (group_run (map (comment_task e gid ep i um) cs) (snd (comment_task e gid ep i um c st))))
       = trace (snd (comment_task e gid ep i um c st)) @ evs2"
    "list_all (\<lambda>ev. \<exists>b. ev = CreateEpicNoteCall CommentLoop gid (ID ep) b) evs2"
    using Cons.IH by blast
  show ?case
    unfolding list.map group_run_Cons_snd
    by (rule exI [of _ "evs1 @ evs2"]) (simp add: 1 2)
qed

lemma comment_task_trace_len:
  "\<exists>evs. trace (snd (comment_task e gid ep i um c st)) = trace st @ evs
      \<and> comment_notes gid ep evs \<and> length evs \<le> 1"
  by (simp add: comment_task_def comment_notes_def emit_def Let_def split: sum.splits option.splits)

lemma group_run_comment_trace_len:
  "\<exists>evs. trace (snd (group_run (map (comment_task e gid ep i um) cs) st)) = trace st @ evs
      \<and> comment_notes gid ep evs \<and> length evs \<le> length cs"
proof (induction cs arbitrary: st)
  case Nil
  then show ?case by (simp add: comment_notes_def)
next
  case (Cons c cs)
  obtain evs1 where 1: "trace (snd (comment_task e gid ep i um c st)) = trace st @ evs1"
    "comment_notes gid ep evs1" "length evs1 \<le> 1"
    using comment_task_trace_len by blast
  obtain evs2 where 2: "trace (snd (group_run (map (comment_task e gid ep i um) cs) (snd (comment_task e gid ep i um c st))))
       = trace (snd (comment_task e gid ep i um c st)) @ evs2"
    "comment_notes gid ep evs2" "length evs2 \<le> length cs"
    using Cons.IH by blast
  have "trace (snd (group_run (map (comment_task e gid ep i um) (c # cs)) st)) = trace st @ (evs1 @ evs2)
      \<and> comment_notes gid ep (evs1 @ evs2) \<and> length (evs1 @ evs2) \<le> length (c # cs)"
    unfolding list.map group_run_Cons_snd using 1 2 by (simp add: comment_notes_def)
  then show ?case by (intro exI)
qed

lemma remain_task_snd:
  "snd (remain_task e gid ep m st) = emit (CreateEpicNoteCall RemainLoop gid (ID ep) (Markdown m)) st"
  by (simp add: remain_task_def Let_def split: option.splits)

lemma group_run_remain_snd:
  "snd (group_run (map (\<lambda>(ident, markdown). remain_task e gid ep markdown) xs) st) =
     st\<lparr>trace := trace st @ map (\<lambda>(ident, m). CreateEpicNoteCall RemainLoop gid (ID ep) (Markdown m)) xs\<rparr>"
proof (induction xs arbitrary: st)
  case Nil
  then show ?case by simp
next
  case (Cons x xs)
  show ?case
    unfolding list.map group_run_Cons_snd Cons.IH
    by (cases x) (simp add: remain_task_snd emit_def)
qed

section \<open>What a match of the pattern looks like\<close>

lemma dot_star_sound:
  "dot_star k acc s = Some r \<Longrightarrow>
     \<exists>cap rest. k (acc @ cap) rest = Some r \<and> s = cap @ rest \<and> newline \<notin> set cap"
proof (induction s arbitrary: acc)
  case Nil
  then show ?case by simp
next
  case (Cons c cs)
  show ?case
  proof (cases "c \<noteq> newline \<and> dot_star k (acc @ [c]) cs \<noteq> None")
    case True
    with Cons.prems have "dot_star k (acc @ [c]) cs = Some r"
      by (auto split: option.splits)
    from Cons.IH [OF this] obtain cap rest where
      h: "k ((acc @ [c]) @ cap) rest = Some r" "cs = cap @ rest" "newline \<notin> set cap"
      by blast
    from True have cn: "newline \<noteq> c" by blast
    from h cn have "k (acc @ (c # cap)) rest = Some r \<and> c # cs = (c # cap) @ rest
        \<and> newline \<notin> set (c # cap)"
      by simp
    then show ?thesis by (intro exI)
  next
    case False
    with Cons.prems have "k (acc @ []) (c # cs) = Some r"
      by (auto split: option.splits if_splits)
    then have "k (acc @ []) (c # cs) = Some r \<and> c # cs = [] @ (c # cs) \<and> newline \<notin> set []"
      by simp
    then show ?thesis by (intro exI)
  qed
qed

lemma dot_plus_sound:
  assumes "dot_plus k s = Some r"
  shows "\<exists>cap rest. cap \<noteq> [] \<and> k cap rest = Some r \<and> s = cap @ rest \<and> newline \<notin> set cap"
proof (cases s)
  case Nil
  with assms show ?thesis by simp
next
  case (Cons c cs)
  with assms have c: "newline \<noteq> c" and "dot_star k [c] cs = Some r"
    by (auto split: if_splits)
  from dot_star_sound [OF this(2)] obtain cap rest where
    h: "k ([c] @ cap) rest = Some r" "cs = cap @ rest" "newline \<notin> set cap"
    by blast
  from h c Cons have "c # cap \<noteq> [] \<and> k (c # cap) rest = Some r \<and> s = (c # cap) @ rest
      \<and> newline \<notin> set (c # cap)"
    by simp
  then show ?thesis by (intro exI)
qed

lemma match_lit:
  "match_here (Lit c # ts) s = Some res \<longleftrightarrow> (\<exists>xs. s = c # xs \<and> match_here ts xs = Some res)"
  by (cases s) auto

lemma match_cap:
  assumes "match_here (CapDotPlus # ts) s = Some (caps, r)"
  shows "\<exists>cap rest caps'. cap \<noteq> [] \<and> newline \<notin> set cap \<and> s = cap @ rest
           \<and> match_here ts rest = Some (caps', r) \<and> caps = cap # caps'"
proof -
  let ?k = "\<lambda>cap rest. case match_here ts rest of
                              None \<Rightarrow> None
                            | Some (caps, r) \<Rightarrow> Some (cap # caps, r)"
  from assms have "dot_plus ?k s = Some (caps, r)" by simp
  from dot_plus_sound [OF this] obtain cap rest where
    h: "cap \<noteq> []" "newline \<notin> set cap" "s = cap @ rest" and k: "?k cap rest = Some (caps, r)"
    by blast
  from k obtain caps' where "match_here ts rest = Some (caps', r)" "caps = cap # caps'"
    by (cases "match_here ts rest") auto
  with h have "cap \<noteq> [] \<and> newline \<notin> set cap \<and> s = cap @ rest
           \<and> match_here ts rest = Some (caps', r) \<and> caps = cap # caps'"
    by simp
  then show ?thesis by (intro exI)
qed

lemma match_embed_sound:
  assumes "match_here embed_pattern s = Some (caps, r)"
  shows "\<exists>alt url. caps = [alt, url] \<and> s = ''!['' @ alt @ '']('' @ url @ '')'' @ r
           \<and> alt \<noteq> [] \<and> url \<noteq> [] \<and> newline \<notin> set alt \<and> newline \<notin> set url"
proof -
  from assms obtain s0 where s0: "s = CHR ''!'' # s0"
    and m0: "match_here [Lit CHR ''['', CapDotPlus, Lit CHR '']'', Lit CHR ''('', CapDotPlus, Lit CHR '')''] s0 = Some (caps, r)"
    unfolding embed_pattern_def match_lit by blast
  from m0 obtain s1 where s1: "s0 = CHR ''['' # s1"
    and m1: "match_here [CapDotPlus, Lit CHR '']'', Lit CHR ''('', CapDotPlus, Lit CHR '')''] s1 = Some (caps, r)"
    unfolding match_lit by blast
  from match_cap [OF m1] obtain alt s2 caps2 where
    alt: "alt \<noteq> []" "newline \<notin> set alt" "s1 = alt @ s2" "caps = alt # caps2"
    and m2: "match_here [Lit CHR '']'', Lit CHR ''('', CapDotPlus, Lit CHR '')''] s2 = Some (caps2, r)"
    by blast
  from m2 obtain s2' where s2': "s2 = CHR '']'' # s2'"
    and m2': "match_here [Lit CHR ''('', CapDotPlus, Lit CHR '')''] s2' = Some (caps2, r)"
    unfolding match_lit by blast
  from m2' obtain s3 where s3: "s2' = CHR ''('' # s3"
    and m3: "match_here [CapDotPlus, Lit CHR '')''] s3 = Some (caps2, r)"
    unfolding match_lit by blast
  from match_cap [OF m3] obtain url s4 caps4 where
    url: "url \<noteq> []" "newline \<notin> set url" "s3 = url @ s4" "caps2 = url # caps4"
    and m4: "match_here [Lit CHR '')''] s4 = Some (caps4, r)"
    by blast
  from m4 obtain s5 where "s4 = CHR '')'' # s5" "match_here [] s5 = Some (caps4, r)"
    unfolding match_lit by blast
  then have "s4 = CHR '')'' # r" "caps4 = []"
    by simp_all
  with s0 s1 alt s2' s3 url have "caps = [alt, url] \<and> s = ''!['' @ alt @ '']('' @ url @ '')'' @ r
           \<and> alt \<noteq> [] \<and> url \<noteq> [] \<and> newline \<notin> set alt \<and> newline \<notin> set url"
    by simp
  then show ?thesis by (intro exI)
qed

lemma FindStringSubmatch_sound:
  "FindStringSubmatch embed_pattern s = [] \<or>
   (\<exists>pre alt url post.
       FindStringSubmatch embed_pattern s = [''!['' @ alt @ '']('' @ url @ '')'', alt, url]
       \<and> s = pre @ ''!['' @ alt @ '']('' @ url @ '')'' @ post
       \<and> alt \<noteq> [] \<and> url \<noteq> [] \<and> newline \<notin> set alt \<and> newline \<notin> set url)"
proof (induction s)
  case Nil
  have "match_here embed_pattern [] = None"
    by (simp add: embed_pattern_def)
  then show ?case by simp
next
  case (Cons c cs)
  show ?case
  proof (cases "match_here embed_pattern (c # cs)")
    case None
    then have eq: "FindStringSubmatch embed_pattern (c # cs) = FindStringSubmatch embed_pattern cs"
      by simp
    from Cons.IH show ?thesis
    proof
      assume "FindStringSubmatch embed_pattern cs = []"
      with eq show ?thesis by simp
    next
      assume "\<exists>pre alt url post.
         FindStringSubmatch embed_pattern cs = [''!['' @ alt @ '']('' @ url @ '')'', alt, url]
         \<and> cs = pre @ ''!['' @ alt @ '']('' @ url @ '')'' @ post
         \<and> alt \<noteq> [] \<and> url \<noteq> [] \<and> newline \<notin> set alt \<and> newline \<notin> set url"
      then obtain pre alt url post where
        h: "FindStringSubmatch embed_pattern cs = [''!['' @ alt @ '']('' @ url @ '')'', alt, url]"
         "cs = pre @ ''!['' @ alt @ '']('' @ url @ '')'' @ post"
         "alt \<noteq> []" "url \<noteq> []" "newline \<notin> set alt" "newline \<notin> set url"
        by blast
      from h(2) have "c # cs = (c # pre) @ ''!['' @ alt @ '']('' @ url @ '')'' @ post"
        by simp
      with h eq have
        "FindStringSubmatch embed_pattern (c # cs) = [''!['' @ alt @ '']('' @ url @ '')'', alt, url]
         \<and> c # cs = (c # pre) @ ''!['' @ alt @ '']('' @ url @ '')'' @ post
         \<and> alt \<noteq> [] \<and> url \<noteq> [] \<and> newline \<notin> set alt \<and> newline \<notin> set url"
        by simp
      then show ?thesis by (intro disjI2 exI)
    qed
  next
    case (Some res)
    obtain caps r where res: "res = (caps, r)" by (cases res)
    from match_embed_sound [OF Some [unfolded res]] obtain alt url where
      h: "caps = [alt, url]" "c # cs = ''!['' @ alt @ '']('' @ url @ '')'' @ r"
        "alt \<noteq> []" "url \<noteq> []" "newline \<notin> set alt" "newline \<notin> set url"
      by blast
    define w where "w = ''!['' @ alt @ '']('' @ url @ '')''"
    from h(2) have cw: "c # cs = w @ r"
      by (simp add: w_def)
    have "take (length (c # cs) - length r) (c # cs) = w"
      unfolding cw by simp
    then have "take (length (c # cs) - length r) (c # cs) = ''!['' @ alt @ '']('' @ url @ '')''"
      unfolding w_def .
    with Some res h(1) have
      "FindStringSubmatch embed_pattern (c # cs) = [''!['' @ alt @ '']('' @ url @ '')'', alt, url]"
      by simp
    moreover from h(2) have "c # cs = [] @ ''!['' @ alt @ '']('' @ url @ '')'' @ r"
      by simp
    ultimately have
      "FindStringSubmatch embed_pattern (c # cs) = [''!['' @ alt @ '']('' @ url @ '')'', alt, url]
         \<and> c # cs = [] @ ''!['' @ alt @ '']('' @ url @ '')'' @ r
         \<and> alt \<noteq> [] \<and> url \<noteq> [] \<and> newline \<notin> set alt \<and> newline \<notin> set url"
      using h(3-6) by blast
    then show ?thesis by (intro disjI2 exI)
  qed
qed

lemma FindStringSubmatch_length:
  "length (FindStringSubmatch embed_pattern s) \<noteq> 3 \<longleftrightarrow> FindStringSubmatch embed_pattern s = []"
  using FindStringSubmatch_sound [of s] by auto

lemma dot_star_last:
  assumes "\<And>ys1 ys2. ys = ys1 @ ys2 \<Longrightarrow> ys1 \<noteq> [] \<Longrightarrow> k (acc @ ys1) ys2 = None"
  shows "dot_star k acc ys = k acc ys"
  using assms
proof (induction ys arbitrary: acc)
  case Nil
  then show ?case by simp
next
  case (Cons c cs)
  have "\<And>ys1 ys2. cs = ys1 @ ys2 \<Longrightarrow> ys1 \<noteq> [] \<Longrightarrow> k ((acc @ [c]) @ ys1) ys2 = None"
  proof -
    fix ys1 ys2
    assume "cs = ys1 @ ys2" "ys1 \<noteq> []"
    then have "c # cs = (c # ys1) @ ys2" "c # ys1 \<noteq> []" by simp_all
    from Cons.prems [OF this] show "k ((acc @ [c]) @ ys1) ys2 = None" by simp
  qed
  from Cons.IH [OF this] have "dot_star k (acc @ [c]) cs = k (acc @ [c]) cs" .
  moreover have "k (acc @ [c]) cs = None"
    using Cons.prems [of "[c]" cs] by simp
  ultimately show ?case by simp
qed

lemma dot_star_longer:
  assumes "dot_star k (acc @ xs) ys = Some r" and "newline \<notin> set xs"
  shows "dot_star k acc (xs @ ys) = Some r"
  using assms
proof (induction xs arbitrary: acc)
  case Nil
  then show ?case by simp
next
  case (Cons x xs)
  from Cons.prems have "dot_star k ((acc @ [x]) @ xs) ys = Some r" "newline \<notin> set xs"
    and x: "x \<noteq> newline"
    by auto
  from Cons.IH [OF this(1,2)] x show ?case by simp
qed

lemma dot_plus_greedy:
  assumes "cap \<noteq> []" and "newline \<notin> set cap" and "k cap ys = Some r"
      and "\<And>ys1 ys2. ys = ys1 @ ys2 \<Longrightarrow> ys1 \<noteq> [] \<Longrightarrow> k (cap @ ys1) ys2 = None"
  shows "dot_plus k (cap @ ys) = Some r"
proof -
  from assms(1) obtain c cs where cap: "cap = c # cs" by (cases cap) auto
  with assms(2) have c: "c \<noteq> newline" and cs: "newline \<notin> set cs" by auto
  have "dot_star k ([c] @ cs) ys = k ([c] @ cs) ys"
    by (rule dot_star_last) (use assms(4) cap in simp)
  with assms(3) cap have "dot_star k ([c] @ cs) ys = Some r" by simp
  from dot_star_longer [OF this cs] c cap show ?thesis by simp
qed

lemma embed_markup_matches:
  assumes alt: "alt \<noteq> []" "newline \<notin> set alt"
      and url: "url \<noteq> []" "newline \<notin> set url" "CHR '']'' \<notin> set url"
  shows "FindStringSubmatch embed_pattern (''!['' @ alt @ '']('' @ url @ '')'')
           = [''!['' @ alt @ '']('' @ url @ '')'', alt, url]"
proof -
  let ?k2 = "\<lambda>cap rest. case match_here [Lit CHR '')''] rest of
                              None \<Rightarrow> None
                            | Some (caps, r) \<Rightarrow> Some (cap # caps, r)"
  have "dot_plus ?k2 (url @ '')'') = Some ([url], [])"
  proof (rule dot_plus_greedy [OF url(1,2)])
    show "?k2 url '')'' = Some ([url], [])" by simp
  next
    fix ys1 ys2 :: string
    assume "'')'' = ys1 @ ys2" "ys1 \<noteq> []"
    then have "ys2 = []" by (cases ys1) auto
    then show "?k2 (url @ ys1) ys2 = None" by simp
  qed
  then have m2: "match_here [CapDotPlus, Lit CHR '')''] (url @ '')'') = Some ([url], [])"
    by simp
  let ?p1 = "[Lit CHR '']'', Lit CHR ''('', CapDotPlus, Lit CHR '')'']"
  let ?k1 = "\<lambda>cap rest. case match_here ?p1 rest of
                              None \<Rightarrow> None
                            | Some (caps, r) \<Rightarrow> Some (cap # caps, r)"
  have "dot_plus ?k1 (alt @ ('']('' @ url @ '')'')) = Some ([alt, url], [])"
  proof (rule dot_plus_greedy [OF alt])
    show "?k1 alt ('']('' @ url @ '')'') = Some ([alt, url], [])"
      using m2 by simp
  next
    fix ys1 ys2 :: string
    assume s: "'']('' @ url @ '')'' = ys1 @ ys2" and ne: "ys1 \<noteq> []"
    have "match_here ?p1 ys2 = None"
    proof (cases ys2)
      case Nil
      then show ?thesis by simp
    next
      case (Cons c cs)
      from ne obtain y ys where ys1: "ys1 = y # ys" by (cases ys1) auto
      with s have "CHR ''('' # url @ '')'' = ys @ ys2" by simp
      then have "c \<in> set (CHR ''('' # url @ '')'')"
        unfolding Cons by (metis in_set_conv_decomp)
      with url(3) have "c \<noteq> CHR '']''" by auto
      with Cons show ?thesis by simp
    qed
    then show "?k1 (alt @ ys1) ys2 = None" by simp
  qed
  then have "match_here embed_pattern (''!['' @ alt @ '']('' @ url @ '')'') = Some ([alt, url], [])"
    by (simp add: embed_pattern_def)
  then show ?thesis by simp
qed

lemma group_run_relocate_lookup:
  assumes "distinct (map att_ID as)" and "a \<in> set as"
      and up: "convertJiraAttachmentToMarkdown e (Project_GitLab_Issue cfg) a = Inr att"
      and m: "FindStringSubmatch embed_pattern (Markdown att) = [whole, alt, url]"
  shows "map_of (attachments (snd (group_run (map (relocate_task e cfg (Project_GitLab_Issue cfg)) as) st)))
           (att_ID a)
         = Some \<lparr>Markdown = ''!['' @ alt @ '']('' @ GitLab_Host cfg @ ''/''
                                  @ Project_GitLab_Issue cfg @ ''/'' @ url @ '')'',
                 Name = Name att, CreatedAt = CreatedAt att\<rparr>"
  using assms(1,2)
proof (induction as arbitrary: st)
  case Nil
  then show ?case by simp
next
  case (Cons b bs)
  show ?case
  proof (cases "b = a")
    case True
    from Cons.prems(1) True have "att_ID a \<notin> set (map att_ID bs)" by simp
    from group_run_relocate_other_keys [OF this] show ?thesis
      unfolding list.map group_run_Cons_snd True
      by (simp add: relocate_task_def up m emit_def Let_def update_conv')
  next
    case False
    with Cons.prems have "distinct (map att_ID bs)" "a \<in> set bs" by auto
    from Cons.IH [OF this] show ?thesis
      unfolding list.map group_run_Cons_snd .
  qed
qed

section \<open>Reading a trace\<close>

lemma uploads_all: "list_all is_upload (map (UploadCall pid) xs)"
  by (induction xs) simp_all

lemma comment_notes_all: "comment_notes gid ep evs \<Longrightarrow> list_all is_note evs"
  unfolding comment_notes_def by (induction evs) auto

lemma remain_notes_all: "list_all is_note (remain_notes gid ep atts)"
  unfolding remain_notes_def by (induction atts) auto

lemma filter_uploads:
  "list_all is_upload evs \<Longrightarrow> filter is_create evs = [] \<and> filter is_update evs = []
      \<and> filter is_note evs = []"
proof (induction evs)
  case Nil
  then show ?case by simp
next
  case (Cons ev evs)
  then show ?case by (cases ev) simp_all
qed

lemma filter_notes:
  "list_all is_note evs \<Longrightarrow> filter is_create evs = [] \<and> filter is_update evs = []
      \<and> filter is_note evs = evs"
proof (induction evs)
  case Nil
  then show ?case by simp
next
  case (Cons ev evs)
  then show ?case by (cases ev) simp_all
qed

lemma notes_no_update: "list_all is_note evs \<Longrightarrow> UpdateEpicCall g n ev \<notin> set evs"
  by (induction evs) auto

lemma uploads_no_update: "list_all is_upload evs \<Longrightarrow> UpdateEpicCall g n ev \<notin> set evs"
  by (induction evs) auto

lemma remain_bodies_append: "remain_bodies (xs @ ys) = remain_bodies xs @ remain_bodies ys"
  by (induction xs rule: remain_bodies.induct) simp_all

lemma remain_bodies_uploads: "remain_bodies (map (UploadCall pid) xs) = []"
  by (induction xs) simp_all

lemma remain_bodies_comments: "comment_notes gid ep evs \<Longrightarrow> remain_bodies evs = []"
  unfolding comment_notes_def by (induction evs) auto

lemma remain_bodies_remain:
  "remain_bodies (remain_notes gid ep atts) = map (\<lambda>(ident, m). Markdown m) atts"
  unfolding remain_notes_def by (induction atts) auto

lemma remain_bodies_closing: "remain_bodies (closing gid ep i) = []"
  by (simp add: closing_def)

lemma observed_state_append:
  "observed_state e (xs @ ys) s = observed_state e ys (observed_state e xs s)"
proof (induction xs arbitrary: s)
  case Nil
  then show ?case by simp
next
  case (Cons ev xs)
  then show ?case by (cases ev) simp_all
qed

lemma observed_state_uploads: "list_all is_upload evs \<Longrightarrow> observed_state e evs s = s"
proof (induction evs)
  case Nil
  then show ?case by simp
next
  case (Cons ev evs)
  then show ?case by (cases ev) simp_all
qed

lemma observed_state_notes: "list_all is_note evs \<Longrightarrow> observed_state e evs s = s"
proof (induction evs)
  case Nil
  then show ?case by simp
next
  case (Cons ev evs)
  then show ?case by (cases ev) simp_all
qed

section \<open>The shape of a run\<close>

lemma skipped_empty: "skipped Map.empty ident = False"
  by (simp add: skipped_def)

lemma remain_tasks_empty:
  "remain_tasks e gid ep Map.empty atts = map (\<lambda>(ident, markdown). remain_task e gid ep markdown) atts"
  by (simp add: remain_tasks_def skipped_empty)

lemma after_create_unfold:
  "after_create e gid ep i um used st2 =
     (case fst (group_run (map (comment_task e gid ep i um) (Comments i)) st2) of
        Some err \<Rightarrow>
          ((None, Some (WithMessage err ''Error creating GitLab comment'')),
           trace (snd (group_run (map (comment_task e gid ep i um) (Comments i)) st2)))
      | None \<Rightarrow>
          (case fst (group_run (remain_tasks e gid ep used (attachments st2))
                      (snd (group_run (map (comment_task e gid ep i um) (Comments i)) st2))) of
             Some err \<Rightarrow>
               ((None, Some (WithMessage err ''Error creating GitLab issue'')),
                trace (snd (group_run (remain_tasks e gid ep used (attachments st2))
                      (snd (group_run (map (comment_task e gid ep i um) (Comments i)) st2)))))
           | None \<Rightarrow>
               ((Some ep, None),
                trace (snd (group_run (remain_tasks e gid ep used (attachments st2))
                      (snd (group_run (map (comment_task e gid ep i um) (Comments i)) st2))))
                 @ closing gid ep i)))"
proof -
  obtain cerr st3 where c: "group_run (map (comment_task e gid ep i um) (Comments i)) st2 = (cerr, st3)"
    by (cases "group_run (map (comment_task e gid ep i um) (Comments i)) st2")
  have a3: "attachments st3 = attachments st2"
    using group_run_comment_attachments [of e gid ep i um "Comments i" st2] unfolding c by simp
  obtain rerr st4 where r: "group_run (remain_tasks e gid ep used (attachments st3)) st3 = (rerr, st4)"
    by (cases "group_run (remain_tasks e gid ep used (attachments st3)) st3")
  show ?thesis
    by (cases cerr; cases rerr)
      (simp_all add: after_create_def c a3 [symmetric] r closing_def emit_def Let_def)
qed

lemma after_create_prefix:
  "\<exists>evs. snd (after_create e gid ep i um Map.empty st2) = trace st2 @ evs"
proof -
  let ?c = "group_run (map (comment_task e gid ep i um) (Comments i)) st2"
  let ?r = "group_run (remain_tasks e gid ep Map.empty (attachments st2)) (snd ?c)"
  obtain cevs where cevs: "trace (snd ?c) = trace st2 @ cevs"
    using group_run_comment_trace_len by blast
  have tr: "trace (snd ?r) = trace (snd ?c) @ remain_notes gid ep (attachments st2)"
    unfolding remain_tasks_empty group_run_remain_snd remain_notes_def by simp
  show ?thesis
    unfolding after_create_unfold tr cevs
    by (simp split: option.splits)
qed

lemma relocate_all_trace:
  "trace (snd (relocate_all e cfg i)) = map (UploadCall (Project_GitLab_Issue cfg)) (Attachments i)"
  by (simp add: relocate_all_def group_run_relocate_trace)

lemma relocate_all_err:
  "fst (relocate_all e cfg i) = None \<longleftrightarrow>
     (\<forall>a\<in>set (Attachments i). \<exists>att. convertJiraAttachmentToMarkdown e (Project_GitLab_Issue cfg) a = Inr att)"
  by (simp add: relocate_all_def group_run_relocate_err)

lemma relocate_all_keys:
  "set (map fst (attachments (snd (relocate_all e cfg i))))
     = set (map att_ID (filter (relocated e cfg) (Attachments i)))
   \<and> distinct (map fst (attachments (snd (relocate_all e cfg i))))"
  using group_run_relocate_keys [of e cfg "Attachments i" "\<lparr>attachments = [], trace = []\<rparr>"]
  by (simp add: relocate_all_def)

lemma start_date_fatal:
  assumes "Project_Jira_CustomField_EpicStartDate cfg \<noteq> []"
      and "Unknowns i (Project_Jira_CustomField_EpicStartDate cfg) = Some (JString s)"
      and "time_Parse e ''2006-01-02'' s = Inl err"
  shows "start_date e cfg i opts = Inl err"
  using assms by (simp add: start_date_def)

lemma start_date_skipped:
  assumes "\<forall>s. Unknowns i (Project_Jira_CustomField_EpicStartDate cfg) \<noteq> Some (JString s)"
  shows "start_date e cfg i opts = Inr opts"
proof (cases "Unknowns i (Project_Jira_CustomField_EpicStartDate cfg)")
  case None
  then show ?thesis by (simp add: start_date_def)
next
  case (Some v)
  with assms show ?thesis by (cases v) (simp_all add: start_date_def)
qed

lemma convert_success:
  assumes ok: "fst (ConvertJiraIssueToGitLabEpic e i um) = (Some epic, None)"
  shows "\<exists>cfg opts st1 cevs.
           GetConfig e = Inr cfg \<and> relocate_all e cfg i = (None, st1)
         \<and> CreateEpic e (Project_GitLab_Epic cfg) opts = Inr epic
         \<and> comment_notes (Project_GitLab_Epic cfg) epic cevs \<and> length cevs \<le> length (Comments i)
         \<and> snd (ConvertJiraIssueToGitLabEpic e i um) =
             map (UploadCall (Project_GitLab_Issue cfg)) (Attachments i)
             @ [CreateEpicCall (Project_GitLab_Epic cfg) opts] @ cevs
             @ remain_notes (Project_GitLab_Epic cfg) epic (attachments st1)
             @ closing (Project_GitLab_Epic cfg) epic i"
proof -
  note d = ConvertJiraIssueToGitLabEpic_def Let_def
  obtain cfg where cfg: "GetConfig e = Inr cfg"
    using ok by (cases "GetConfig e") (simp_all add: d)
  obtain ls where ls: "convertJiraToGitLabLabels e (Project_GitLab_Epic cfg) i True = Inr ls"
    using ok by (cases "convertJiraToGitLabLabels e (Project_GitLab_Epic cfg) i True") (simp_all add: d cfg)
  obtain rerr st1 where r: "relocate_all e cfg i = (rerr, st1)"
    by (cases "relocate_all e cfg i")
  have rerr: "rerr = None"
    using ok by (cases rerr) (simp_all add: d cfg ls r)
  have t1: "trace st1 = map (UploadCall (Project_GitLab_Issue cfg)) (Attachments i)"
    using relocate_all_trace [of e cfg i] unfolding r by simp
  obtain desc where desc: "formatDescription e i um (attachments st1) True = Inr desc"
    using ok by (cases "formatDescription e i um (attachments st1) True") (simp_all add: d cfg ls r rerr)
  define opts0 where "opts0 = \<lparr>Title = Some (Summary i), Color = Some (RandomColor e),
      opt_CreatedAt = Some (Created i), Labels = ls, DueDateFixed = Some (Duedate i),
      Description = Some desc, StartDateIsFixed = None, StartDateFixed = None, DueDateIsFixed = None\<rparr>"
  obtain opts1 where sd: "start_date e cfg i opts0 = Inr opts1"
    using ok by (cases "start_date e cfg i opts0") (simp_all add: d cfg ls r rerr desc opts0_def)
  define opts where "opts = due_date i opts1"
  define st2 where "st2 = emit (CreateEpicCall (Project_GitLab_Epic cfg) opts) st1"
  obtain ep where ep: "CreateEpic e (Project_GitLab_Epic cfg) opts = Inr ep"
    using ok by (cases "CreateEpic e (Project_GitLab_Epic cfg) opts")
      (simp_all add: d cfg ls r rerr desc opts0_def [symmetric] sd opts_def [symmetric])
  have eq: "ConvertJiraIssueToGitLabEpic e i um =
      after_create e (Project_GitLab_Epic cfg) ep i um Map.empty st2"
    by (simp add: d cfg ls r rerr desc opts0_def [symmetric] sd opts_def [symmetric] ep st2_def)
  let ?gid = "Project_GitLab_Epic cfg"
  let ?c = "group_run (map (comment_task e ?gid ep i um) (Comments i)) st2"
  let ?r = "group_run (remain_tasks e ?gid ep Map.empty (attachments st2)) (snd ?c)"
  from ok have c: "fst ?c = None" and rr: "fst ?r = None" and epic: "epic = ep"
    unfolding eq after_create_unfold by (auto split: option.splits)
  have snd_eq: "snd (ConvertJiraIssueToGitLabEpic e i um) = trace (snd ?r) @ closing ?gid ep i"
    unfolding eq after_create_unfold by (simp add: c rr)
  obtain cevs where cevs: "trace (snd ?c) = trace st2 @ cevs" "comment_notes ?gid ep cevs"
    "length cevs \<le> length (Comments i)"
    using group_run_comment_trace_len by blast
  have a2: "attachments st2 = attachments st1"
    by (simp add: st2_def emit_def)
  have t2: "trace st2 = trace st1 @ [CreateEpicCall ?gid opts]"
    by (simp add: st2_def emit_def)
  have "trace (snd ?r) = trace (snd ?c) @ remain_notes ?gid ep (attachments st1)"
    unfolding remain_tasks_empty group_run_remain_snd a2 remain_notes_def by simp
  with snd_eq cevs t2 t1 have "snd (ConvertJiraIssueToGitLabEpic e i um) =
             map (UploadCall (Project_GitLab_Issue cfg)) (Attachments i)
             @ [CreateEpicCall ?gid opts] @ cevs
             @ remain_notes ?gid ep (attachments st1) @ closing ?gid ep i"
    by simp
  with cfg r rerr ep epic cevs(2,3) have
    "GetConfig e = Inr cfg \<and> relocate_all e cfg i = (None, st1)
         \<and> CreateEpic e (Project_GitLab_Epic cfg) opts = Inr epic
         \<and> comment_notes (Project_GitLab_Epic cfg) epic cevs \<and> length cevs \<le> length (Comments i)
         \<and> snd (ConvertJiraIssueToGitLabEpic e i um) =
             map (UploadCall (Project_GitLab_Issue cfg)) (Attachments i)
             @ [CreateEpicCall (Project_GitLab_Epic cfg) opts] @ cevs
             @ remain_notes (Project_GitLab_Epic cfg) epic (attachments st1)
             @ closing (Project_GitLab_Epic cfg) epic i"
    by simp
  then show ?thesis by (intro exI)
qed

lemma convert_cases:
  "(\<exists>err. fst (ConvertJiraIssueToGitLabEpic e i um) = (None, Some err)
       \<and> list_all is_upload (snd (ConvertJiraIssueToGitLabEpic e i um)))
   \<or> (\<exists>err cfg opts evs. fst (ConvertJiraIssueToGitLabEpic e i um) = (None, Some err)
       \<and> GetConfig e = Inr cfg
       \<and> snd (ConvertJiraIssueToGitLabEpic e i um) =
            map (UploadCall (Project_GitLab_Issue cfg)) (Attachments i)
            @ [CreateEpicCall (Project_GitLab_Epic cfg) opts] @ evs
       \<and> list_all is_note evs)
   \<or> (\<exists>epic. fst (ConvertJiraIssueToGitLabEpic e i um) = (Some epic, None))"
  (is "?A \<or> ?B \<or> ?C")
proof -
  note d = ConvertJiraIssueToGitLabEpic_def Let_def
  show ?thesis
  proof (cases "GetConfig e")
    case (Inl err)
    then have ?A by (simp add: d)
    then show ?thesis ..
  next
    case (Inr cfg)
    note cfg = this
    let ?gid = "Project_GitLab_Epic cfg"
    show ?thesis
    proof (cases "convertJiraToGitLabLabels e ?gid i True")
      case (Inl err)
      with cfg have ?A by (simp add: d)
      then show ?thesis ..
    next
      case (Inr ls)
      note ls = this
      obtain rerr st1 where r: "relocate_all e cfg i = (rerr, st1)"
        by (cases "relocate_all e cfg i")
      have t1: "trace st1 = map (UploadCall (Project_GitLab_Issue cfg)) (Attachments i)"
        using relocate_all_trace [of e cfg i] unfolding r by simp
      have u1: "list_all is_upload (trace st1)"
        unfolding t1 by (rule uploads_all)
      show ?thesis
      proof (cases rerr)
        case (Some err)
        with cfg ls r u1 have ?A by (simp add: d)
        then show ?thesis ..
      next
        case None
        note rerr = this
        show ?thesis
        proof (cases "formatDescription e i um (attachments st1) True")
          case (Inl err)
          with cfg ls r rerr u1 have ?A by (simp add: d)
          then show ?thesis ..
        next
          case (Inr desc)
          note desc = this
          define opts0 where "opts0 = \<lparr>Title = Some (Summary i), Color = Some (RandomColor e),
            opt_CreatedAt = Some (Created i), Labels = ls, DueDateFixed = Some (Duedate i),
            Description = Some desc, StartDateIsFixed = None, StartDateFixed = None,
            DueDateIsFixed = None\<rparr>"
          show ?thesis
          proof (cases "start_date e cfg i opts0")
            case (Inl err)
            with cfg ls r rerr desc u1 have ?A by (simp add: d opts0_def)
            then show ?thesis ..
          next
            case (Inr opts1)
            note sd = this
            define opts where "opts = due_date i opts1"
            define st2 where "st2 = emit (CreateEpicCall ?gid opts) st1"
            have a2: "attachments st2 = attachments st1"
              by (simp add: st2_def emit_def)
            have t2: "trace st2 = map (UploadCall (Project_GitLab_Issue cfg)) (Attachments i)
                         @ [CreateEpicCall ?gid opts]"
              by (simp add: st2_def emit_def t1)
            show ?thesis
            proof (cases "CreateEpic e ?gid opts")
              case (Inl err)
              then have "fst (ConvertJiraIssueToGitLabEpic e i um)
                           = (None, Some (WithMessage err ''Error creating GitLab epic''))"
                "snd (ConvertJiraIssueToGitLabEpic e i um) = trace st2"
                by (simp_all add: d cfg ls r rerr desc opts0_def [symmetric] sd
                      opts_def [symmetric] st2_def)
              with t2 cfg have "fst (ConvertJiraIssueToGitLabEpic e i um)
                           = (None, Some (WithMessage err ''Error creating GitLab epic''))
                 \<and> GetConfig e = Inr cfg
                 \<and> snd (ConvertJiraIssueToGitLabEpic e i um) =
                      map (UploadCall (Project_GitLab_Issue cfg)) (Attachments i)
                      @ [CreateEpicCall ?gid opts] @ []
                 \<and> list_all is_note []"
                by simp
              then have ?B by (intro exI)
              then show ?thesis by blast
            next
              case (Inr ep)
              have eq: "ConvertJiraIssueToGitLabEpic e i um =
                  after_create e ?gid ep i um Map.empty st2"
                by (simp add: d cfg ls r rerr desc opts0_def [symmetric] sd
                      opts_def [symmetric] Inr st2_def)
              let ?c = "group_run (map (comment_task e ?gid ep i um) (Comments i)) st2"
              let ?r = "group_run (remain_tasks e ?gid ep Map.empty (attachments st2)) (snd ?c)"
              obtain cevs where cevs: "trace (snd ?c) = trace st2 @ cevs"
                "comment_notes ?gid ep cevs" "length cevs \<le> length (Comments i)"
                using group_run_comment_trace_len by blast
              have tr: "trace (snd ?r) = trace (snd ?c) @ remain_notes ?gid ep (attachments st1)"
                unfolding remain_tasks_empty group_run_remain_snd a2 remain_notes_def by simp
              show ?thesis
              proof (cases "fst ?c")
                case (Some err)
                then have "fst (ConvertJiraIssueToGitLabEpic e i um)
                           = (None, Some (WithMessage err ''Error creating GitLab comment''))"
                  "snd (ConvertJiraIssueToGitLabEpic e i um) = trace (snd ?c)"
                  unfolding eq after_create_unfold by simp_all
                with t2 cfg cevs comment_notes_all [OF cevs(2)]
                have "fst (ConvertJiraIssueToGitLabEpic e i um)
                           = (None, Some (WithMessage err ''Error creating GitLab comment''))
                 \<and> GetConfig e = Inr cfg
                 \<and> snd (ConvertJiraIssueToGitLabEpic e i um) =
                      map (UploadCall (Project_GitLab_Issue cfg)) (Attachments i)
                      @ [CreateEpicCall ?gid opts] @ cevs
                 \<and> list_all is_note cevs"
                  by simp
                then have ?B by (intro exI)
                then show ?thesis by blast
              next
                case None
                note c = this
                show ?thesis
                proof (cases "fst ?r")
                  case (Some err)
                  with c have "fst (ConvertJiraIssueToGitLabEpic e i um)
                           = (None, Some (WithMessage err ''Error creating GitLab issue''))"
                    "snd (ConvertJiraIssueToGitLabEpic e i um) = trace (snd ?r)"
                    unfolding eq after_create_unfold by simp_all
                  with t2 cfg cevs tr comment_notes_all [OF cevs(2)]
                    remain_notes_all [of ?gid ep "attachments st1"]
                  have "fst (ConvertJiraIssueToGitLabEpic e i um)
                           = (None, Some (WithMessage err ''Error creating GitLab issue''))
                   \<and> GetConfig e = Inr cfg
                   \<and> snd (ConvertJiraIssueToGitLabEpic e i um) =
                      map (UploadCall (Project_GitLab_Issue cfg)) (Attachments i)
                      @ [CreateEpicCall ?gid opts] @ (cevs @ remain_notes ?gid ep (attachments st1))
                   \<and> list_all is_note (cevs @ remain_notes ?gid ep (attachments st1))"
                    by simp
                  then have ?B by (intro exI)
                  then show ?thesis by blast
                next
                  case None
                  with c have "fst (ConvertJiraIssueToGitLabEpic e i um) = (Some ep, None)"
                    unfolding eq after_create_unfold by simp
                  then have ?C by (intro exI)
                  then show ?thesis by blast
                qed
              qed
            qed
          qed
        qed
      qed
    qed
  qed
qed

section \<open>Evaluating the concrete runs\<close>

lemmas demo_defs =
  ConvertJiraIssueToGitLabEpic_def env_demo_def issue_demo_def cfg_demo_def upload_demo_def
  describe_demo_def relocate_all_def relocate_task_def emit_def start_date_def due_date_def
  after_create_def remain_tasks_def remain_task_def comment_task_def skipped_def
  embed_pattern_def newline_def opts_demo_def Let_def issue_pdf_def issue_gone_def
  env_noclose_def

section \<open>The claims\<close>

text \<open>
  C1. The description formatter of this run embeds the relocated attachment \<open>a1\<close> inline,
  and the creation call carries that description; the loop over the remaining attachments
  still posts the same markup as a note of its own.
\<close>

theorem inline_attachment_posted_again:
  "ConvertJiraIssueToGitLabEpic env_demo issue_demo [] =
     ((Some \<lparr>ID = 101, IID = 1\<rparr>, None),
      [UploadCall ''group/issues'' \<lparr>att_ID = ''a1'', att_Filename = ''1.png''\<rparr>,
       CreateEpicCall ''group''
         (opts_demo\<lparr>Description :=
            Some ''See ![screenshot](https://gitlab.example.com/group/issues/./img/1.png)''\<rparr>),
       CreateEpicNoteCall RemainLoop ''group'' 101
         ''![screenshot](https://gitlab.example.com/group/issues/./img/1.png)'',
       UpdateEpicCall ''group'' 1 ''close''])"
  by (simp add: demo_defs)

text \<open>
  C2. An upload that answers with a plain link \<open>[notes.pdf](/uploads/notes.pdf)\<close> does
  not match the pattern. The attachment task then wraps its nil \<open>err\<close>, so it returns
  nil and stores nothing; the conversion goes on, creates the epic and returns it with a
  nil error.
\<close>

theorem unmatched_markup_no_error:
  "FindStringSubmatch embed_pattern ''[notes.pdf](/uploads/notes.pdf)'' = []
   \<and> relocate_task env_demo cfg_demo ''group/issues'' \<lparr>att_ID = ''a2'', att_Filename = ''notes.pdf''\<rparr>
         \<lparr>attachments = [], trace = []\<rparr>
       = (None, \<lparr>attachments = [],
                 trace = [UploadCall ''group/issues'' \<lparr>att_ID = ''a2'', att_Filename = ''notes.pdf''\<rparr>]\<rparr>)
   \<and> ConvertJiraIssueToGitLabEpic env_demo issue_pdf [] =
     ((Some \<lparr>ID = 101, IID = 1\<rparr>, None),
      [UploadCall ''group/issues'' \<lparr>att_ID = ''a2'', att_Filename = ''notes.pdf''\<rparr>,
       CreateEpicCall ''group'' (opts_demo\<lparr>Description := Some ''See !a1!''\<rparr>),
       UpdateEpicCall ''group'' 1 ''close''])"
  by (simp add: demo_defs)

text \<open>
  C3. \<open>usedAttachment\<close> stays empty for the whole run, so on a conversion that returns
  the epic the loop over the remaining attachments posts one note for every entry of the
  map of relocated attachments, whatever the description and the comments embed: the
  bodies of these notes are, up to order, the markups of the map; the map has one entry
  for each identifier whose upload succeeded and whose markup matched.
\<close>

theorem every_relocated_attachment_posted:
  assumes cfg: "GetConfig e = Inr cfg"
      and ok: "fst (ConvertJiraIssueToGitLabEpic e i um) = (Some epic, None)"
  shows "mset (remain_bodies (snd (ConvertJiraIssueToGitLabEpic e i um)))
           = mset (map (\<lambda>(ident, m). Markdown m) (attachments (snd (relocate_all e cfg i))))
         \<and> set (map fst (attachments (snd (relocate_all e cfg i))))
           = set (map att_ID (filter (relocated e cfg) (Attachments i)))
         \<and> distinct (map fst (attachments (snd (relocate_all e cfg i))))"
proof -
  from convert_success [OF ok] obtain cfg' opts st1 cevs where
    h: "GetConfig e = Inr cfg'" "relocate_all e cfg' i = (None, st1)"
       "comment_notes (Project_GitLab_Epic cfg') epic cevs"
       "snd (ConvertJiraIssueToGitLabEpic e i um) =
             map (UploadCall (Project_GitLab_Issue cfg')) (Attachments i)
             @ [CreateEpicCall (Project_GitLab_Epic cfg') opts] @ cevs
             @ remain_notes (Project_GitLab_Epic cfg') epic (attachments st1)
             @ closing (Project_GitLab_Epic cfg') epic i"
    by blast
  from h(1) cfg have c: "cfg' = cfg" by simp
  have "remain_bodies (snd (ConvertJiraIssueToGitLabEpic e i um))
          = map (\<lambda>(ident, m). Markdown m) (attachments st1)"
    unfolding h(4)
    by (simp add: remain_bodies_append remain_bodies_uploads remain_bodies_comments [OF h(3)]
          remain_bodies_remain remain_bodies_closing)
  moreover have "st1 = snd (relocate_all e cfg i)"
    using h(2) c by simp
  ultimately show ?thesis
    using relocate_all_keys [of e cfg i] by simp
qed

theorem every_relocated_attachment_posted_witness:
  "GetConfig env_demo = Inr cfg_demo
   \<and> fst (ConvertJiraIssueToGitLabEpic env_demo issue_demo []) = (Some \<lparr>ID = 101, IID = 1\<rparr>, None)
   \<and> remain_bodies (snd (ConvertJiraIssueToGitLabEpic env_demo issue_demo []))
       = [''![screenshot](https://gitlab.example.com/group/issues/./img/1.png)'']
   \<and> mset (remain_bodies (snd (ConvertJiraIssueToGitLabEpic env_demo issue_demo [])))
       = mset (map (\<lambda>(ident, m). Markdown m) (attachments (snd (relocate_all env_demo cfg_demo issue_demo))))"
proof -
  have cfg: "GetConfig env_demo = Inr cfg_demo"
    by (simp add: env_demo_def)
  have ok: "fst (ConvertJiraIssueToGitLabEpic env_demo issue_demo []) = (Some \<lparr>ID = 101, IID = 1\<rparr>, None)"
    by (simp add: demo_defs)
  have b: "remain_bodies (snd (ConvertJiraIssueToGitLabEpic env_demo issue_demo []))
       = [''![screenshot](https://gitlab.example.com/group/issues/./img/1.png)'']"
    by (simp add: demo_defs)
  from every_relocated_attachment_posted [OF cfg ok] cfg ok b
  show ?thesis by simp
qed

text \<open>
  C4. When the task of one of the issue's attachments returns an error, the conversion
  returns a nil epic with a non-nil error, and no creation call is among the calls issued.
\<close>

theorem relocation_error_aborts:
  assumes cfg: "GetConfig e = Inr cfg"
      and a: "a \<in> set (Attachments i)"
      and err: "fst (relocate_task e cfg (Project_GitLab_Issue cfg) a st) = Some err"
  shows "(\<exists>err'. fst (ConvertJiraIssueToGitLabEpic e i um) = (None, Some err'))
         \<and> filter is_create (snd (ConvertJiraIssueToGitLabEpic e i um)) = []"
proof (cases "convertJiraToGitLabLabels e (Project_GitLab_Epic cfg) i True")
  case (Inl lerr)
  with cfg show ?thesis
    by (simp add: ConvertJiraIssueToGitLabEpic_def)
next
  case (Inr ls)
  obtain rerr st1 where r: "relocate_all e cfg i = (rerr, st1)"
    by (cases "relocate_all e cfg i")
  from err have "\<not> (\<exists>att. convertJiraAttachmentToMarkdown e (Project_GitLab_Issue cfg) a = Inr att)"
    unfolding relocate_task_err by (auto split: sum.splits)
  with a have "fst (relocate_all e cfg i) \<noteq> None"
    unfolding relocate_all_err by blast
  then obtain rerr' where rerr: "rerr = Some rerr'"
    unfolding r by auto
  have "list_all is_upload (trace st1)"
    using relocate_all_trace [of e cfg i] uploads_all unfolding r by simp
  then have "filter is_create (trace st1) = []"
    using filter_uploads by blast
  with cfg Inr r rerr show ?thesis
    by (simp add: ConvertJiraIssueToGitLabEpic_def)
qed

theorem relocation_error_aborts_witness:
  "GetConfig env_demo = Inr cfg_demo
   \<and> \<lparr>att_ID = ''a3'', att_Filename = ''gone.png''\<rparr> \<in> set (Attachments issue_gone)
   \<and> fst (relocate_task env_demo cfg_demo (Project_GitLab_Issue cfg_demo)
            \<lparr>att_ID = ''a3'', att_Filename = ''gone.png''\<rparr> \<lparr>attachments = [], trace = []\<rparr>)
       = Some (WithMessage (Failure ''404 Not Found'')
                ''Error converting Jira attachment to GitLab attachment'')
   \<and> fst (fst (ConvertJiraIssueToGitLabEpic env_demo issue_gone [])) = None
   \<and> snd (fst (ConvertJiraIssueToGitLabEpic env_demo issue_gone [])) \<noteq> None
   \<and> filter is_create (snd (ConvertJiraIssueToGitLabEpic env_demo issue_gone [])) = []"
proof -
  have cfg: "GetConfig env_demo = Inr cfg_demo"
    by (simp add: env_demo_def)
  have a: "\<lparr>att_ID = ''a3'', att_Filename = ''gone.png''\<rparr> \<in> set (Attachments issue_gone)"
    by (simp add: issue_gone_def)
  have err: "fst (relocate_task env_demo cfg_demo (Project_GitLab_Issue cfg_demo)
            \<lparr>att_ID = ''a3'', att_Filename = ''gone.png''\<rparr> \<lparr>attachments = [], trace = []\<rparr>)
       = Some (WithMessage (Failure ''404 Not Found'')
                ''Error converting Jira attachment to GitLab attachment'')"
    by (simp add: demo_defs)
  from relocation_error_aborts [OF cfg a err, of "[]"] cfg a err
  show ?thesis by auto
qed

text \<open>
  C5. When the markup returned for an attachment matches the pattern with the captures
  \<open>alt\<close> and \<open>url\<close>, the attachment task reports no error and stores, under the
  attachment's own identifier, the markup \<open>![alt](host/project/url)\<close>: the configured
  host, the path of the issue project and the returned url joined by \<open>/\<close> in that
  order, with the name and the creation time of the upload. The matched text is
  \<open>![alt](url)\<close>.
\<close>

theorem relocated_markup_absolute:
  assumes up: "convertJiraAttachmentToMarkdown e (Project_GitLab_Issue cfg) a = Inr att"
      and m: "FindStringSubmatch embed_pattern (Markdown att) = [whole, alt, url]"
  shows "relocate_task e cfg (Project_GitLab_Issue cfg) a st =
           (None,
            st\<lparr>attachments :=
                  AList.update (att_ID a)
                    \<lparr>Markdown = ''!['' @ alt @ '']('' @ GitLab_Host cfg @ ''/''
                                  @ Project_GitLab_Issue cfg @ ''/'' @ url @ '')'',
                     Name = Name att, CreatedAt = CreatedAt att\<rparr>
                    (attachments st),
                trace := trace st @ [UploadCall (Project_GitLab_Issue cfg) a]\<rparr>)
         \<and> map_of (attachments (snd (relocate_task e cfg (Project_GitLab_Issue cfg) a st))) (att_ID a) =
             Some \<lparr>Markdown = ''!['' @ alt @ '']('' @ GitLab_Host cfg @ ''/''
                                  @ Project_GitLab_Issue cfg @ ''/'' @ url @ '')'',
                   Name = Name att, CreatedAt = CreatedAt att\<rparr>
         \<and> whole = ''!['' @ alt @ '']('' @ url @ '')''"
proof -
  have w: "whole = ''!['' @ alt @ '']('' @ url @ '')''"
    using FindStringSubmatch_sound [of "Markdown att"] unfolding m by auto
  have t: "relocate_task e cfg (Project_GitLab_Issue cfg) a st =
           (None,
            st\<lparr>attachments :=
                  AList.update (att_ID a)
                    \<lparr>Markdown = ''!['' @ alt @ '']('' @ GitLab_Host cfg @ ''/''
                                  @ Project_GitLab_Issue cfg @ ''/'' @ url @ '')'',
                     Name = Name att, CreatedAt = CreatedAt att\<rparr>
                    (attachments st),
                trace := trace st @ [UploadCall (Project_GitLab_Issue cfg) a]\<rparr>)"
    by (simp add: relocate_task_def up m emit_def Let_def)
  show ?thesis
    unfolding t using w by (simp add: update_conv')
qed

theorem relocated_markup_absolute_witness:
  "convertJiraAttachmentToMarkdown env_demo (Project_GitLab_Issue cfg_demo)
       \<lparr>att_ID = ''a1'', att_Filename = ''1.png''\<rparr>
     = Inr \<lparr>Markdown = ''![screenshot](./img/1.png)'', Name = ''1.png'', CreatedAt = 7\<rparr>
   \<and> FindStringSubmatch embed_pattern ''![screenshot](./img/1.png)''
     = [''![screenshot](./img/1.png)'', ''screenshot'', ''./img/1.png'']
   \<and> map_of (attachments (snd (relocate_task env_demo cfg_demo (Project_GitLab_Issue cfg_demo)
               \<lparr>att_ID = ''a1'', att_Filename = ''1.png''\<rparr> \<lparr>attachments = [], trace = []\<rparr>))) ''a1''
     = Some \<lparr>Markdown = ''![screenshot](https://gitlab.example.com/group/issues/./img/1.png)'',
             Name = ''1.png'', CreatedAt = 7\<rparr>"
proof -
  have up: "convertJiraAttachmentToMarkdown env_demo (Project_GitLab_Issue cfg_demo)
       \<lparr>att_ID = ''a1'', att_Filename = ''1.png''\<rparr>
     = Inr \<lparr>Markdown = ''![screenshot](./img/1.png)'', Name = ''1.png'', CreatedAt = 7\<rparr>"
    by (simp add: env_demo_def upload_demo_def)
  have m: "FindStringSubmatch embed_pattern
             (Markdown \<lparr>Markdown = ''![screenshot](./img/1.png)'', Name = ''1.png'', CreatedAt = 7\<rparr>)
     = [''![screenshot](./img/1.png)'', ''screenshot'', ''./img/1.png'']"
    by (simp add: embed_pattern_def newline_def)
  from relocated_markup_absolute [OF up m, of "\<lparr>attachments = [], trace = []\<rparr>"] up m
  show ?thesis
    by (simp add: cfg_demo_def)
qed

text \<open>
  C6. An issue without attachments and without comments whose conversion returns the epic
  has issued exactly one creation call and no note call.
\<close>

theorem no_attachments_no_comments:
  assumes "Attachments i = []" and "Comments i = []"
      and ok: "fst (ConvertJiraIssueToGitLabEpic e i um) = (Some epic, None)"
  shows "length (filter is_create (snd (ConvertJiraIssueToGitLabEpic e i um))) = 1
         \<and> filter is_note (snd (ConvertJiraIssueToGitLabEpic e i um)) = []"
proof -
  from convert_success [OF ok] obtain cfg opts st1 cevs where
    h: "relocate_all e cfg i = (None, st1)"
       "length cevs \<le> length (Comments i)"
       "snd (ConvertJiraIssueToGitLabEpic e i um) =
             map (UploadCall (Project_GitLab_Issue cfg)) (Attachments i)
             @ [CreateEpicCall (Project_GitLab_Epic cfg) opts] @ cevs
             @ remain_notes (Project_GitLab_Epic cfg) epic (attachments st1)
             @ closing (Project_GitLab_Epic cfg) epic i"
    by blast
  from h(2) assms(2) have cevs: "cevs = []" by simp
  from h(1) assms(1) have "attachments st1 = []"
    by (auto simp add: relocate_all_def)
  with h(3) cevs assms(1) show ?thesis
    by (simp add: remain_notes_def closing_def)
qed

theorem no_attachments_no_comments_witness:
  "Attachments issue_bare = [] \<and> Comments issue_bare = []
   \<and> fst (ConvertJiraIssueToGitLabEpic env_demo issue_bare []) = (Some \<lparr>ID = 101, IID = 1\<rparr>, None)
   \<and> length (filter is_create (snd (ConvertJiraIssueToGitLabEpic env_demo issue_bare []))) = 1
   \<and> filter is_note (snd (ConvertJiraIssueToGitLabEpic env_demo issue_bare [])) = []"
proof -
  have a: "Attachments issue_bare = []" and c: "Comments issue_bare = []"
    by (simp_all add: issue_bare_def issue_demo_def)
  have ok: "fst (ConvertJiraIssueToGitLabEpic env_demo issue_bare []) = (Some \<lparr>ID = 101, IID = 1\<rparr>, None)"
    by (simp add: demo_defs issue_bare_def)
  from no_attachments_no_comments [OF a c ok] a c ok
  show ?thesis by simp
qed

text \<open>
  C7, as the code has it. Without a resolution no state update is ever issued. With a
  resolution, a conversion that returns the epic ends with one state update with the event
  \<open>close\<close> on the created epic, issued after every upload, the creation and every note,
  when the epic is observed as opened; since the result of that call is dropped, the epic
  is observed as closed afterwards exactly when the call succeeds.
\<close>

theorem resolution_closes_when_update_succeeds:
  "(Resolution i = None \<longrightarrow> filter is_update (snd (ConvertJiraIssueToGitLabEpic e i um)) = [])
   \<and> (Resolution i \<noteq> None \<and> GetConfig e = Inr cfg
        \<and> fst (ConvertJiraIssueToGitLabEpic e i um) = (Some epic, None) \<longrightarrow>
        (\<exists>pre. snd (ConvertJiraIssueToGitLabEpic e i um)
                  = pre @ [UpdateEpicCall (Project_GitLab_Epic cfg) (IID epic) ''close'']
              \<and> filter is_update pre = []
              \<and> observed_state e pre None = Some ''opened'')
        \<and> (observed_state e (snd (ConvertJiraIssueToGitLabEpic e i um)) None = Some ''closed''
             \<longleftrightarrow> UpdateEpic e (Project_GitLab_Epic cfg) (IID epic) ''close'' = None))"
proof (intro conjI impI)
  assume res: "Resolution i = None"
  let ?t = "snd (ConvertJiraIssueToGitLabEpic e i um)"
  from convert_cases [of e i um] show "filter is_update ?t = []"
  proof (elim disjE exE conjE)
    fix err
    assume "list_all is_upload ?t"
    then show ?thesis using filter_uploads by blast
  next
    fix err and cfg' :: Config and opts evs
    assume B: "?t = map (UploadCall (Project_GitLab_Issue cfg')) (Attachments i)
            @ [CreateEpicCall (Project_GitLab_Epic cfg') opts] @ evs" "list_all is_note evs"
    have "filter is_update (map (UploadCall (Project_GitLab_Issue cfg')) (Attachments i)) = []"
      using filter_uploads [OF uploads_all] by blast
    with B filter_notes [OF B(2)] show ?thesis by simp
  next
    fix epic'
    assume C: "fst (ConvertJiraIssueToGitLabEpic e i um) = (Some epic', None)"
    from convert_success [OF C] obtain cfg' :: Config and opts and st1 :: conv_state and cevs where
      h: "comment_notes (Project_GitLab_Epic cfg') epic' cevs"
       "?t = map (UploadCall (Project_GitLab_Issue cfg')) (Attachments i)
             @ [CreateEpicCall (Project_GitLab_Epic cfg') opts] @ cevs
             @ remain_notes (Project_GitLab_Epic cfg') epic' (attachments st1)
             @ closing (Project_GitLab_Epic cfg') epic' i"
      by blast
    have "filter is_update (map (UploadCall (Project_GitLab_Issue cfg')) (Attachments i)) = []"
      using filter_uploads [OF uploads_all] by blast
    moreover have "filter is_update cevs = []"
      using filter_notes [OF comment_notes_all [OF h(1)]] by blast
    moreover have "filter is_update (remain_notes (Project_GitLab_Epic cfg') epic' (attachments st1)) = []"
      using filter_notes [OF remain_notes_all] by blast
    ultimately show ?thesis
      unfolding h(2) using res by (simp add: closing_def)
  qed
next
  assume a: "Resolution i \<noteq> None \<and> GetConfig e = Inr cfg
        \<and> fst (ConvertJiraIssueToGitLabEpic e i um) = (Some epic, None)"
  then have res: "Resolution i \<noteq> None" and cfg: "GetConfig e = Inr cfg"
    and ok: "fst (ConvertJiraIssueToGitLabEpic e i um) = (Some epic, None)"
    by simp_all
  let ?t = "snd (ConvertJiraIssueToGitLabEpic e i um)"
  let ?gid = "Project_GitLab_Epic cfg"
  from convert_success [OF ok] obtain cfg' opts st1 cevs where
    h0: "GetConfig e = Inr cfg'" "relocate_all e cfg' i = (None, st1)"
       "comment_notes (Project_GitLab_Epic cfg') epic cevs"
       "CreateEpic e (Project_GitLab_Epic cfg') opts = Inr epic"
       "?t = map (UploadCall (Project_GitLab_Issue cfg')) (Attachments i)
             @ [CreateEpicCall (Project_GitLab_Epic cfg') opts] @ cevs
             @ remain_notes (Project_GitLab_Epic cfg') epic (attachments st1)
             @ closing (Project_GitLab_Epic cfg') epic i"
    by blast
  from h0(1) cfg have c: "cfg' = cfg" by simp
  note h = h0(3-5) [unfolded c]
  define pre where "pre = map (UploadCall (Project_GitLab_Issue cfg)) (Attachments i)
             @ [CreateEpicCall ?gid opts] @ cevs @ remain_notes ?gid epic (attachments st1)"
  have t: "?t = pre @ [UpdateEpicCall ?gid (IID epic) ''close'']"
    unfolding h(3) pre_def using res by (simp add: closing_def)
  have "filter is_update (map (UploadCall (Project_GitLab_Issue cfg)) (Attachments i)) = []"
    using filter_uploads [OF uploads_all] by blast
  moreover have "filter is_update cevs = []"
    using filter_notes [OF comment_notes_all [OF h(1)]] by blast
  moreover have "filter is_update (remain_notes ?gid epic (attachments st1)) = []"
    using filter_notes [OF remain_notes_all] by blast
  ultimately have nu: "filter is_update pre = []"
    unfolding pre_def by simp
  have op: "observed_state e pre None = Some ''opened''"
    unfolding pre_def
    by (simp add: observed_state_append observed_state_uploads [OF uploads_all] h(2)
          observed_state_notes [OF comment_notes_all [OF h(1)]]
          observed_state_notes [OF remain_notes_all])
  from t nu op show "\<exists>pre. ?t = pre @ [UpdateEpicCall ?gid (IID epic) ''close'']
              \<and> filter is_update pre = [] \<and> observed_state e pre None = Some ''opened''"
    by blast
  show "observed_state e ?t None = Some ''closed''
             \<longleftrightarrow> UpdateEpic e ?gid (IID epic) ''close'' = None"
    unfolding t by (simp add: observed_state_append op)
qed

theorem resolution_closes_when_update_succeeds_witness:
  "Resolution (issue_demo\<lparr>Resolution := None\<rparr>) = None
   \<and> filter is_update (snd (ConvertJiraIssueToGitLabEpic env_demo (issue_demo\<lparr>Resolution := None\<rparr>) [])) = []
   \<and> Resolution issue_demo \<noteq> None \<and> GetConfig env_demo = Inr cfg_demo
   \<and> fst (ConvertJiraIssueToGitLabEpic env_demo issue_demo []) = (Some \<lparr>ID = 101, IID = 1\<rparr>, None)
   \<and> UpdateEpic env_demo (Project_GitLab_Epic cfg_demo) (IID \<lparr>ID = 101, IID = 1\<rparr>) ''close'' = None
   \<and> observed_state env_demo (snd (ConvertJiraIssueToGitLabEpic env_demo issue_demo [])) None
       = Some ''closed''"
proof -
  have r0: "Resolution (issue_demo\<lparr>Resolution := None\<rparr>) = None"
    by simp
  have r1: "Resolution issue_demo \<noteq> None"
    by (simp add: issue_demo_def)
  have cfg: "GetConfig env_demo = Inr cfg_demo"
    by (simp add: env_demo_def)
  have ok: "fst (ConvertJiraIssueToGitLabEpic env_demo issue_demo []) = (Some \<lparr>ID = 101, IID = 1\<rparr>, None)"
    by (simp add: demo_defs)
  have u: "UpdateEpic env_demo (Project_GitLab_Epic cfg_demo) (IID \<lparr>ID = 101, IID = 1\<rparr>) ''close'' = None"
    by (simp add: env_demo_def)
  from resolution_closes_when_update_succeeds
         [of "issue_demo\<lparr>Resolution := None\<rparr>" env_demo "[]" cfg_demo "\<lparr>ID = 101, IID = 1\<rparr>"]
       resolution_closes_when_update_succeeds
         [of issue_demo env_demo "[]" cfg_demo "\<lparr>ID = 101, IID = 1\<rparr>"]
       r0 r1 cfg ok u
  show ?thesis by simp
qed

text \<open>
  C7 as stated fails: with a resolution present and a target system that refuses the
  update, the conversion returns the epic, the update was the last call, and the epic is
  still observed as opened.
\<close>

theorem failed_update_leaves_epic_open:
  "Resolution issue_demo \<noteq> None
   \<and> fst (ConvertJiraIssueToGitLabEpic env_noclose issue_demo []) = (Some \<lparr>ID = 101, IID = 1\<rparr>, None)
   \<and> last (snd (ConvertJiraIssueToGitLabEpic env_noclose issue_demo []))
       = UpdateEpicCall ''group'' 1 ''close''
   \<and> observed_state env_noclose (snd (ConvertJiraIssueToGitLabEpic env_noclose issue_demo [])) None
       = Some ''opened''
   \<and> observed_state env_noclose (snd (ConvertJiraIssueToGitLabEpic env_noclose issue_demo [])) None
       \<noteq> Some ''closed''"
  by (simp add: demo_defs)

text \<open>
  C8. With the name of the start-date field configured: when the field holds a string that
  \<open>time.Parse\<close> rejects for the layout \<open>2006-01-02\<close>, the conversion returns a nil epic
  with a non-nil error and issues no creation call; when the field is missing or holds
  something that is not a string, and the labels, the relocation and the description
  succeed, the creation call is issued with the description and without a start date.
\<close>

theorem start_date_parse_fatal_absence_not:
  assumes cfg: "GetConfig e = Inr cfg"
      and field: "Project_Jira_CustomField_EpicStartDate cfg \<noteq> []"
  shows "(\<forall>s err. Unknowns i (Project_Jira_CustomField_EpicStartDate cfg) = Some (JString s)
             \<and> time_Parse e ''2006-01-02'' s = Inl err \<longrightarrow>
            (\<exists>err'. fst (ConvertJiraIssueToGitLabEpic e i um) = (None, Some err'))
            \<and> filter is_create (snd (ConvertJiraIssueToGitLabEpic e i um)) = [])
       \<and> ((\<forall>s. Unknowns i (Project_Jira_CustomField_EpicStartDate cfg) \<noteq> Some (JString s))
            \<and> convertJiraToGitLabLabels e (Project_GitLab_Epic cfg) i True = Inr ls
            \<and> relocate_all e cfg i = (None, st1)
            \<and> formatDescription e i um (attachments st1) True = Inr desc \<longrightarrow>
            (\<exists>opts. CreateEpicCall (Project_GitLab_Epic cfg) opts
                        \<in> set (snd (ConvertJiraIssueToGitLabEpic e i um))
                  \<and> Description opts = Some desc
                  \<and> StartDateIsFixed opts = None \<and> StartDateFixed opts = None))"
proof (intro conjI allI impI)
  fix s err
  assume a: "Unknowns i (Project_Jira_CustomField_EpicStartDate cfg) = Some (JString s)
             \<and> time_Parse e ''2006-01-02'' s = Inl err"
  note sd = start_date_fatal [OF field conjunct1 [OF a] conjunct2 [OF a]]
  obtain rerr st where r: "relocate_all e cfg i = (rerr, st)"
    by (cases "relocate_all e cfg i")
  have "list_all is_upload (trace st)"
    using relocate_all_trace [of e cfg i] uploads_all unfolding r by simp
  then have nc: "filter is_create (trace st) = []"
    using filter_uploads by blast
  have "(\<exists>err'. fst (ConvertJiraIssueToGitLabEpic e i um) = (None, Some err'))
            \<and> filter is_create (snd (ConvertJiraIssueToGitLabEpic e i um)) = []"
    by (cases "convertJiraToGitLabLabels e (Project_GitLab_Epic cfg) i True"; cases rerr;
        cases "formatDescription e i um (attachments st) True")
       (simp_all add: ConvertJiraIssueToGitLabEpic_def cfg r sd nc)
  then show "\<exists>err'. fst (ConvertJiraIssueToGitLabEpic e i um) = (None, Some err')"
    and "filter is_create (snd (ConvertJiraIssueToGitLabEpic e i um)) = []"
    by simp_all
next
  assume a: "(\<forall>s. Unknowns i (Project_Jira_CustomField_EpicStartDate cfg) \<noteq> Some (JString s))
            \<and> convertJiraToGitLabLabels e (Project_GitLab_Epic cfg) i True = Inr ls
            \<and> relocate_all e cfg i = (None, st1)
            \<and> formatDescription e i um (attachments st1) True = Inr desc"
  then have ns: "\<forall>s. Unknowns i (Project_Jira_CustomField_EpicStartDate cfg) \<noteq> Some (JString s)"
    and ls: "convertJiraToGitLabLabels e (Project_GitLab_Epic cfg) i True = Inr ls"
    and r: "relocate_all e cfg i = (None, st1)"
    and desc: "formatDescription e i um (attachments st1) True = Inr desc"
    by simp_all
  note sd = start_date_skipped [OF ns]
  define opts where "opts = due_date i \<lparr>Title = Some (Summary i), Color = Some (RandomColor e),
      opt_CreatedAt = Some (Created i), Labels = ls, DueDateFixed = Some (Duedate i),
      Description = Some desc, StartDateIsFixed = None, StartDateFixed = None, DueDateIsFixed = None\<rparr>"
  define st2 where "st2 = emit (CreateEpicCall (Project_GitLab_Epic cfg) opts) st1"
  have o: "Description opts = Some desc \<and> StartDateIsFixed opts = None \<and> StartDateFixed opts = None"
    by (simp add: opts_def due_date_def)
  have "CreateEpicCall (Project_GitLab_Epic cfg) opts \<in> set (snd (ConvertJiraIssueToGitLabEpic e i um))"
  proof (cases "CreateEpic e (Project_GitLab_Epic cfg) opts")
    case (Inl err)
    then have "snd (ConvertJiraIssueToGitLabEpic e i um) = trace st2"
      by (simp add: ConvertJiraIssueToGitLabEpic_def Let_def cfg ls r desc sd
            opts_def [symmetric] st2_def)
    then show ?thesis by (simp add: st2_def emit_def)
  next
    case (Inr ep)
    then have "ConvertJiraIssueToGitLabEpic e i um =
        after_create e (Project_GitLab_Epic cfg) ep i um Map.empty st2"
      by (simp add: ConvertJiraIssueToGitLabEpic_def Let_def cfg ls r desc sd
            opts_def [symmetric] st2_def)
    with after_create_prefix [of e "Project_GitLab_Epic cfg" ep i um st2]
    show ?thesis by (auto simp add: st2_def emit_def)
  qed
  with o have "CreateEpicCall (Project_GitLab_Epic cfg) opts
                        \<in> set (snd (ConvertJiraIssueToGitLabEpic e i um))
                  \<and> Description opts = Some desc
                  \<and> StartDateIsFixed opts = None \<and> StartDateFixed opts = None"
    by simp
  then show "\<exists>opts. CreateEpicCall (Project_GitLab_Epic cfg) opts
                        \<in> set (snd (ConvertJiraIssueToGitLabEpic e i um))
                  \<and> Description opts = Some desc
                  \<and> StartDateIsFixed opts = None \<and> StartDateFixed opts = None"
    by (intro exI)
qed

theorem start_date_parse_fatal_absence_not_witness:
  "GetConfig env_demo = Inr cfg_demo
   \<and> Project_Jira_CustomField_EpicStartDate cfg_demo \<noteq> []
   \<and> Unknowns issue_baddate (Project_Jira_CustomField_EpicStartDate cfg_demo)
       = Some (JString ''15/01/2024'')
   \<and> time_Parse env_demo ''2006-01-02'' ''15/01/2024'' = Inl (Failure ''parsing time'')
   \<and> fst (ConvertJiraIssueToGitLabEpic env_demo issue_baddate [])
       = (None, Some (WithMessage (Failure ''parsing time'') ''Error parsing time''))
   \<and> filter is_create (snd (ConvertJiraIssueToGitLabEpic env_demo issue_baddate [])) = []
   \<and> Unknowns issue_numdate (Project_Jira_CustomField_EpicStartDate cfg_demo)
       = Some (JNumber 20240115)
   \<and> convertJiraToGitLabLabels env_demo (Project_GitLab_Epic cfg_demo) issue_numdate True = Inr []
   \<and> fst (relocate_all env_demo cfg_demo issue_numdate) = None
   \<and> formatDescription env_demo issue_numdate []
         (attachments (snd (relocate_all env_demo cfg_demo issue_numdate))) True
       = Inr ''See ![screenshot](https://gitlab.example.com/group/issues/./img/1.png)''
   \<and> CreateEpicCall ''group''
         (opts_demo\<lparr>Description :=
            Some ''See ![screenshot](https://gitlab.example.com/group/issues/./img/1.png)''\<rparr>)
       \<in> set (snd (ConvertJiraIssueToGitLabEpic env_demo issue_numdate []))"
proof -
  let ?f = "Project_Jira_CustomField_EpicStartDate cfg_demo"
  let ?d = "''See ![screenshot](https://gitlab.example.com/group/issues/./img/1.png)''"
  let ?st = "snd (relocate_all env_demo cfg_demo issue_numdate)"
  have cfg: "GetConfig env_demo = Inr cfg_demo"
    by (simp add: env_demo_def)
  have field: "?f \<noteq> []"
    by (simp add: cfg_demo_def)
  have u: "Unknowns issue_baddate ?f = Some (JString ''15/01/2024'')"
    by (simp add: issue_baddate_def cfg_demo_def)
  have p: "time_Parse env_demo ''2006-01-02'' ''15/01/2024'' = Inl (Failure ''parsing time'')"
    by (simp add: env_demo_def)
  have res: "fst (ConvertJiraIssueToGitLabEpic env_demo issue_baddate [])
       = (None, Some (WithMessage (Failure ''parsing time'') ''Error parsing time''))"
    by (simp add: demo_defs issue_baddate_def)
  have n: "Unknowns issue_numdate ?f = Some (JNumber 20240115)"
    by (simp add: issue_numdate_def cfg_demo_def)
  then have ns: "\<forall>s. Unknowns issue_numdate ?f \<noteq> Some (JString s)"
    by simp
  have l: "convertJiraToGitLabLabels env_demo (Project_GitLab_Epic cfg_demo) issue_numdate True = Inr []"
    by (simp add: env_demo_def)
  have r1: "fst (relocate_all env_demo cfg_demo issue_numdate) = None"
    by (simp add: demo_defs issue_numdate_def)
  then have r: "relocate_all env_demo cfg_demo issue_numdate = (None, ?st)"
    by (cases "relocate_all env_demo cfg_demo issue_numdate") simp
  have d: "formatDescription env_demo issue_numdate [] (attachments ?st) True = Inr ?d"
    by (simp add: demo_defs issue_numdate_def)
  have c: "CreateEpicCall ''group'' (opts_demo\<lparr>Description := Some ?d\<rparr>)
       \<in> set (snd (ConvertJiraIssueToGitLabEpic env_demo issue_numdate []))"
    by (simp add: demo_defs issue_numdate_def)
  from start_date_parse_fatal_absence_not [OF cfg field, of issue_baddate "[]" "[]" ?st ?d] u p
  have "filter is_create (snd (ConvertJiraIssueToGitLabEpic env_demo issue_baddate [])) = []"
    by blast
  moreover
  from start_date_parse_fatal_absence_not [OF cfg field, of issue_numdate "[]" "[]" ?st ?d] ns l r d
  have "\<exists>opts. CreateEpicCall (Project_GitLab_Epic cfg_demo) opts
                        \<in> set (snd (ConvertJiraIssueToGitLabEpic env_demo issue_numdate []))"
    by blast
  ultimately show ?thesis
    using cfg field u p res n l r1 d c by simp
qed

text \<open>
  C9. When the state update has been issued and the target system answers it with an
  error, the conversion still returns a nil error together with the epic that the creation
  call of the same run returned.
\<close>

theorem failed_update_still_returns_epic:
  assumes iss: "UpdateEpicCall gid iid stateEvent \<in> set (snd (ConvertJiraIssueToGitLabEpic e i um))"
      and fails: "UpdateEpic e gid iid stateEvent = Some err"
  shows "\<exists>epic opts. fst (ConvertJiraIssueToGitLabEpic e i um) = (Some epic, None)
           \<and> iid = IID epic
           \<and> CreateEpicCall gid opts \<in> set (snd (ConvertJiraIssueToGitLabEpic e i um))
           \<and> CreateEpic e gid opts = Inr epic"
proof -
  let ?t = "snd (ConvertJiraIssueToGitLabEpic e i um)"
  from convert_cases [of e i um] show ?thesis
  proof (elim disjE exE conjE)
    fix err'
    assume "list_all is_upload ?t"
    with iss uploads_no_update show ?thesis by blast
  next
    fix err' and cfg :: Config and opts evs
    assume B: "?t = map (UploadCall (Project_GitLab_Issue cfg)) (Attachments i)
            @ [CreateEpicCall (Project_GitLab_Epic cfg) opts] @ evs" "list_all is_note evs"
    from iss notes_no_update [OF B(2)] uploads_no_update [OF uploads_all]
    have False unfolding B(1) by auto
    then show ?thesis ..
  next
    fix epic
    assume C: "fst (ConvertJiraIssueToGitLabEpic e i um) = (Some epic, None)"
    from convert_success [OF C] obtain cfg opts st1 cevs where
      h: "GetConfig e = Inr cfg" "relocate_all e cfg i = (None, st1)"
       "comment_notes (Project_GitLab_Epic cfg) epic cevs"
       "CreateEpic e (Project_GitLab_Epic cfg) opts = Inr epic"
       "?t = map (UploadCall (Project_GitLab_Issue cfg)) (Attachments i)
             @ [CreateEpicCall (Project_GitLab_Epic cfg) opts] @ cevs
             @ remain_notes (Project_GitLab_Epic cfg) epic (attachments st1)
             @ closing (Project_GitLab_Epic cfg) epic i"
      by blast
    from iss notes_no_update [OF comment_notes_all [OF h(3)]]
      notes_no_update [OF remain_notes_all] uploads_no_update [OF uploads_all]
    have "UpdateEpicCall gid iid stateEvent \<in> set (closing (Project_GitLab_Epic cfg) epic i)"
      unfolding h(5) by auto
    then have g: "gid = Project_GitLab_Epic cfg" "iid = IID epic"
      by (auto simp add: closing_def split: if_splits)
    have "CreateEpicCall gid opts \<in> set ?t"
      unfolding h(5) g by simp
    with C g h(4) have "fst (ConvertJiraIssueToGitLabEpic e i um) = (Some epic, None)
           \<and> iid = IID epic
           \<and> CreateEpicCall gid opts \<in> set (snd (ConvertJiraIssueToGitLabEpic e i um))
           \<and> CreateEpic e gid opts = Inr epic"
      by simp
    then show ?thesis by (intro exI)
  qed
qed

theorem failed_update_still_returns_epic_witness:
  "UpdateEpicCall ''group'' 1 ''close'' \<in> set (snd (ConvertJiraIssueToGitLabEpic env_noclose issue_demo []))
   \<and> UpdateEpic env_noclose ''group'' 1 ''close'' = Some (Failure ''403 Forbidden'')
   \<and> fst (ConvertJiraIssueToGitLabEpic env_noclose issue_demo []) = (Some \<lparr>ID = 101, IID = 1\<rparr>, None)"
proof -
  have iss: "UpdateEpicCall ''group'' 1 ''close''
               \<in> set (snd (ConvertJiraIssueToGitLabEpic env_noclose issue_demo []))"
    by (simp add: demo_defs)
  have fails: "UpdateEpic env_noclose ''group'' 1 ''close'' = Some (Failure ''403 Forbidden'')"
    by (simp add: env_noclose_def)
  have c: "\<And>gid opts. CreateEpic env_noclose gid opts = Inr \<lparr>ID = 101, IID = 1\<rparr>"
    by (simp add: env_noclose_def env_demo_def)
  from failed_update_still_returns_epic [OF iss fails] iss fails c
  show ?thesis by auto
qed

text \<open>
  C10. Once a call of \<open>GetJiraClient\<close> has returned a client, leaving it in the package
  variable, a later call returns that same client and leaves the variable as it is,
  whatever configuration it is given and whatever the Jira server would answer.
\<close>

theorem cached_client_returned:
  assumes "GetJiraClient je jiraConfig jiraClient = Inr (client, jiraClient')"
  shows "GetJiraClient je' jiraConfig' jiraClient' = Inr (client, jiraClient')"
  using assms
  by (auto simp add: GetJiraClient_def split: option.splits sum.splits)

theorem cached_client_returned_witness:
  "GetJiraClient jira_env_demo \<lparr>Host = ''https://jira.example.com'', Token = ''t1''\<rparr> None
     = Inr (24, Some 24)
   \<and> GetJiraClient jira_env_demo \<lparr>Host = ''https://other.example.org/jira'', Token = ''t2''\<rparr> (Some 24)
     = Inr (24, Some 24)
   \<and> GetJiraClient jira_env_demo \<lparr>Host = ''https://other.example.org/jira'', Token = ''t2''\<rparr> None
     = Inr (30, Some 30)"
proof -
  have first: "GetJiraClient jira_env_demo \<lparr>Host = ''https://jira.example.com'', Token = ''t1''\<rparr> None
     = Inr (24, Some 24)"
    by (simp add: GetJiraClient_def jira_env_demo_def)
  have other: "GetJiraClient jira_env_demo \<lparr>Host = ''https://other.example.org/jira'', Token = ''t2''\<rparr> None
     = Inr (30, Some 30)"
    by (simp add: GetJiraClient_def jira_env_demo_def)
  from cached_client_returned [OF first, of jira_env_demo
         "\<lparr>Host = ''https://other.example.org/jira'', Token = ''t2''\<rparr>"] first other
  show ?thesis by simp
qed

end
